theory Spec2Isabelle
  imports Complex_Main "HOL-Library.Sublist"
begin

section \<open>JavaScript values\<close>

text \<open>
  A JavaScript number is modelled as an exact rational, the two infinities or \<open>NaN\<close>.
  Rounding to IEEE doubles and the sign of zero are not modelled: every property below is
  about the order of the values and about \<open>NaN\<close>, which the exact model keeps.
\<close>

datatype number = NaN | NegInf | Fin rat | PosInf

fun num_neg :: "number \<Rightarrow> number" where
  "num_neg NaN = NaN"
| "num_neg NegInf = PosInf"
| "num_neg PosInf = NegInf"
| "num_neg (Fin a) = Fin (- a)"

fun num_add :: "number \<Rightarrow> number \<Rightarrow> number" where
  "num_add NaN _ = NaN"
| "num_add _ NaN = NaN"
| "num_add PosInf NegInf = NaN"
| "num_add NegInf PosInf = NaN"
| "num_add PosInf _ = PosInf"
| "num_add _ PosInf = PosInf"
| "num_add NegInf _ = NegInf"
| "num_add _ NegInf = NegInf"
| "num_add (Fin a) (Fin b) = Fin (a + b)"

definition num_sub :: "number \<Rightarrow> number \<Rightarrow> number" where
  "num_sub a b = num_add a (num_neg b)"

text \<open>The sign of a number as an integer; \<open>NaN\<close> is handled before it is used.\<close>

fun num_sign :: "number \<Rightarrow> int" where
  "num_sign NaN = 0"
| "num_sign NegInf = - 1"
| "num_sign PosInf = 1"
| "num_sign (Fin a) = (if a < 0 then - 1 else if a = 0 then 0 else 1)"

definition signed_inf :: "int \<Rightarrow> number" where
  "signed_inf s = (if s < 0 then NegInf else if s = 0 then NaN else PosInf)"

fun is_inf :: "number \<Rightarrow> bool" where
  "is_inf NegInf = True"
| "is_inf PosInf = True"
| "is_inf _ = False"

fun num_mul :: "number \<Rightarrow> number \<Rightarrow> number" where
  "num_mul NaN _ = NaN"
| "num_mul _ NaN = NaN"
| "num_mul (Fin a) (Fin b) = Fin (a * b)"
| "num_mul a b = signed_inf (num_sign a * num_sign b)"

text \<open>
  Division: a finite number over zero is an infinity of the dividend's sign, and
  \<open>0 / 0\<close> is \<open>NaN\<close> (the divisor \<open>-0\<close> is not modelled).
\<close>

fun num_div :: "number \<Rightarrow> number \<Rightarrow> number" where
  "num_div NaN _ = NaN"
| "num_div _ NaN = NaN"
| "num_div (Fin a) (Fin b) = (if b = 0 then signed_inf (num_sign (Fin a)) else Fin (a / b))"
| "num_div (Fin a) _ = Fin 0"
| "num_div a (Fin b) = (if is_inf a then signed_inf (num_sign a * (if b < 0 then - 1 else 1)) else NaN)"
| "num_div _ _ = NaN"

text \<open>The comparison \<open>a <= b\<close> of JavaScript: false as soon as one side is \<open>NaN\<close>.\<close>

fun num_le :: "number \<Rightarrow> number \<Rightarrow> bool" where
  "num_le NaN _ = False"
| "num_le _ NaN = False"
| "num_le NegInf _ = True"
| "num_le _ PosInf = True"
| "num_le (Fin a) (Fin b) = (a \<le> b)"
| "num_le _ _ = False"

text \<open>The comparison \<open>a > b\<close> of JavaScript.\<close>

fun num_gt :: "number \<Rightarrow> number \<Rightarrow> bool" where
  "num_gt NaN _ = False"
| "num_gt _ NaN = False"
| "num_gt a b = (\<not> num_le a b)"

text \<open>\<open>Math.min\<close>, \<open>Math.max\<close> and \<open>Math.round\<close>.\<close>

fun math_min :: "number \<Rightarrow> number \<Rightarrow> number" where
  "math_min NaN _ = NaN"
| "math_min _ NaN = NaN"
| "math_min a b = (if num_le a b then a else b)"

fun math_max :: "number \<Rightarrow> number \<Rightarrow> number" where
  "math_max NaN _ = NaN"
| "math_max _ NaN = NaN"
| "math_max a b = (if num_le a b then b else a)"

fun math_round :: "number \<Rightarrow> number" where
  "math_round (Fin a) = Fin (of_int \<lfloor>a + 1 / 2\<rfloor>)"
| "math_round n = n"

text \<open>
  A cell of a parsed sheet row, as \<open>XLSX.utils.sheet_to_json\<close> yields it: a string, a
  number or a boolean. Strings are byte sequences (UTF-8 for the localized headers).
\<close>

datatype cell = CStr string | CNum number | CBool bool

fun truthy :: "cell \<Rightarrow> bool" where
  "truthy (CStr s) = (s \<noteq> [])"
| "truthy (CNum n) = (n \<noteq> NaN \<and> n \<noteq> Fin 0)"
| "truthy (CBool b) = b"

text \<open>A thrown value: an \<open>Error\<close> instance with its message, or anything else.\<close>

datatype thrown = ErrorObj string | NonError

subsection \<open>Strings\<close>

text \<open>
  \<open>String.prototype.toLowerCase\<close> on the ASCII letters; the keyword tables are ASCII.
\<close>

definition lower_char :: "char \<Rightarrow> char" where
  "lower_char c =
     (case map_of (zip ''ABCDEFGHIJKLMNOPQRSTUVWXYZ'' ''abcdefghijklmnopqrstuvwxyz'') c of
        Some d \<Rightarrow> d
      | None \<Rightarrow> c)"

definition toLowerCase :: "string \<Rightarrow> string" where
  "toLowerCase s = map lower_char s"

text \<open>\<open>s.includes(k)\<close>: \<open>k\<close> occurs in \<open>s\<close> as a contiguous substring.\<close>

fun str_includes :: "string \<Rightarrow> string \<Rightarrow> bool" where
  "str_includes [] k = (k = [])"
| "str_includes (c # cs) k = (prefix k (c # cs) \<or> str_includes cs k)"

subsection \<open>parseFloat\<close>

definition is_digit :: "char \<Rightarrow> bool" where
  "is_digit c = (48 \<le> (of_char c :: nat) \<and> (of_char c :: nat) \<le> 57)"

definition digit_val :: "char \<Rightarrow> nat" where
  "digit_val c = of_char c - 48"

text \<open>
  The white space and line terminators that \<open>parseFloat\<close> and \<open>Number\<close> trim, as UTF-8:
  TAB, LF, VT, FF, CR, space, U+00A0, U+1680, U+2000 to U+200A, U+2028, U+2029, U+202F,
  U+205F, U+3000 and U+FEFF.
\<close>

definition white_space :: "string list" where
  "white_space =
     [[CHR 0x09], [CHR 0x0A], [CHR 0x0B], [CHR 0x0C], [CHR 0x0D], [CHR 0x20],
      [CHR 0xC2, CHR 0xA0],
      [CHR 0xE1, CHR 0x9A, CHR 0x80],
      [CHR 0xE2, CHR 0x80, CHR 0x80], [CHR 0xE2, CHR 0x80, CHR 0x81],
      [CHR 0xE2, CHR 0x80, CHR 0x82], [CHR 0xE2, CHR 0x80, CHR 0x83],
      [CHR 0xE2, CHR 0x80, CHR 0x84], [CHR 0xE2, CHR 0x80, CHR 0x85],
      [CHR 0xE2, CHR 0x80, CHR 0x86], [CHR 0xE2, CHR 0x80, CHR 0x87],
      [CHR 0xE2, CHR 0x80, CHR 0x88], [CHR 0xE2, CHR 0x80, CHR 0x89],
      [CHR 0xE2, CHR 0x80, CHR 0x8A],
      [CHR 0xE2, CHR 0x80, CHR 0xA8], [CHR 0xE2, CHR 0x80, CHR 0xA9],
      [CHR 0xE2, CHR 0x80, CHR 0xAF],
      [CHR 0xE2, CHR 0x81, CHR 0x9F],
      [CHR 0xE3, CHR 0x80, CHR 0x80],
      [CHR 0xEF, CHR 0xBB, CHR 0xBF]]"

text \<open>Dropping from the head of a string every occurrence of one of the given words.\<close>

fun skip_any :: "string list \<Rightarrow> string \<Rightarrow> string" where
  "skip_any ws [] = []"
| "skip_any ws (c # cs) =
     (case find (\<lambda>w. w \<noteq> [] \<and> prefix w (c # cs)) ws of
        None \<Rightarrow> c # cs
      | Some w \<Rightarrow> skip_any ws (drop (length w - 1) cs))"

definition skip_white :: "string \<Rightarrow> string" where
  "skip_white s = skip_any white_space s"

fun digits_val :: "nat \<Rightarrow> string \<Rightarrow> nat" where
  "digits_val acc [] = acc"
| "digits_val acc (c # cs) = digits_val (10 * acc + digit_val c) cs"

text \<open>
  The exponent part at the head of a string, when it is well formed (\<open>e\<close> or \<open>E\<close>, an
  optional sign, at least one digit): its value and what follows it. Otherwise nothing is
  consumed.
\<close>

definition exponent_part :: "string \<Rightarrow> int \<times> string" where
  "exponent_part r =
     (case r of
        [] \<Rightarrow> (0, r)
      | c # r1 \<Rightarrow>
          if c = CHR ''e'' \<or> c = CHR ''E'' then
            (let neg = (r1 \<noteq> [] \<and> hd r1 = CHR ''-'');
                 r2 = (if r1 \<noteq> [] \<and> (hd r1 = CHR ''+'' \<or> hd r1 = CHR ''-'') then tl r1 else r1);
                 ds = takeWhile is_digit r2
             in if ds = [] then (0, r)
                else ((if neg then - int (digits_val 0 ds) else int (digits_val 0 ds)),
                      dropWhile is_digit r2))
          else (0, r))"

definition scale10 :: "rat \<Rightarrow> int \<Rightarrow> rat" where
  "scale10 m e = (if 0 \<le> e then m * 10 ^ nat e else m / 10 ^ nat (- e))"

text \<open>
  The longest prefix that is an unsigned decimal literal of the grammar of
  \<open>parseFloat\<close> (\<open>Infinity\<close>, \<open>12\<close>, \<open>12.\<close>, \<open>12.5\<close>, \<open>.5\<close>, each but the first with an
  optional exponent): its value and the rest of the string; \<open>None\<close> when no prefix is one.
\<close>

definition unsigned_decimal :: "string \<Rightarrow> (number \<times> string) option" where
  "unsigned_decimal s =
     (if prefix ''Infinity'' s then Some (PosInf, drop 8 s)
      else
        (let ip = takeWhile is_digit s;
             r1 = dropWhile is_digit s;
             has_dot = (r1 \<noteq> [] \<and> hd r1 = CHR ''.'');
             fp = (if has_dot then takeWhile is_digit (tl r1) else []);
             r2 = (if has_dot then dropWhile is_digit (tl r1) else r1)
         in if ip = [] \<and> fp = [] then None
            else
              (let ex = exponent_part r2;
                   m = of_nat (digits_val 0 (ip @ fp)) / 10 ^ length fp
               in Some (Fin (scale10 m (fst ex)), snd ex))))"

definition str_decimal :: "string \<Rightarrow> (number \<times> string) option" where
  "str_decimal s =
     (case s of
        [] \<Rightarrow> None
      | c # t \<Rightarrow>
          if c = CHR ''+'' then unsigned_decimal t
          else if c = CHR ''-'' then map_option (\<lambda>p. (num_neg (fst p), snd p)) (unsigned_decimal t)
          else unsigned_decimal s)"

definition parseFloat_str :: "string \<Rightarrow> number" where
  "parseFloat_str s =
     (case str_decimal (skip_white s) of None \<Rightarrow> NaN | Some p \<Rightarrow> fst p)"

text \<open>
  \<open>parseFloat\<close> converts its argument to a string first: a number prints and parses back
  to itself, a boolean prints as \<open>true\<close> or \<open>false\<close>, which is no number.
\<close>

fun parseFloat :: "cell \<Rightarrow> number" where
  "parseFloat (CStr s) = parseFloat_str s"
| "parseFloat (CNum n) = n"
| "parseFloat (CBool b) = NaN"

section \<open>The CBAM classifier\<close>

record cbama_check =
  chk_relevant :: bool
  chk_category :: "string option"

definition cbamaCategories :: "(string \<times> string list) list" where
  "cbamaCategories =
     [(''cement'', [''2523'', ''2507'', ''cement'', ''concrete'']),
      (''steel'', [''72'', ''7301'', ''7302'', ''7303'', ''7304'', ''7305'', ''7306'', ''steel'', ''iron'']),
      (''aluminum'', [''76'', ''7601'', ''7602'', ''7603'', ''7604'', ''7605'', ''aluminum'', ''aluminium'']),
      (''fertilizers'', [''31'', ''3102'', ''3103'', ''3104'', ''3105'', ''fertilizer'', ''urea'', ''ammonia'']),
      (''electricity'', [''2716'', ''electricity'', ''power'', ''energy''])]"

text \<open>The inner loop over one category's keywords: it returns at the first that matches.\<close>

fun match_keywords :: "string \<Rightarrow> string \<Rightarrow> string list \<Rightarrow> bool" where
  "match_keywords code desc [] = False"
| "match_keywords code desc (keyword # keywords) =
     (if str_includes code keyword \<or> str_includes desc keyword then True
      else match_keywords code desc keywords)"

text \<open>The outer loop over the table's entries, in the table's order.\<close>

fun scan_categories :: "string \<Rightarrow> string \<Rightarrow> (string \<times> string list) list \<Rightarrow> cbama_check" where
  "scan_categories code desc [] = \<lparr>chk_relevant = False, chk_category = None\<rparr>"
| "scan_categories code desc (entry # entries) =
     (if match_keywords code desc (snd entry)
      then \<lparr>chk_relevant = True, chk_category = Some (fst entry)\<rparr>
      else scan_categories code desc entries)"

definition detectCBAMRelevance :: "string \<Rightarrow> string \<Rightarrow> cbama_check" where
  "detectCBAMRelevance productCode description =
     (let code = toLowerCase productCode;
          desc = toLowerCase description
      in scan_categories code desc cbamaCategories)"

section \<open>The spreadsheet normalizer\<close>

text \<open>A row of the sheet: the cells by column header.\<close>

type_synonym row = "(string \<times> cell) list"

text \<open>
  \<open>row[k1] || row[k2] || ... || d\<close>: the first cell that is truthy, else the last
  operand. A header that the row does not have reads \<open>undefined\<close>, which is falsy.
\<close>

fun or_chain :: "row \<Rightarrow> string list \<Rightarrow> cell \<Rightarrow> cell" where
  "or_chain row [] d = d"
| "or_chain row (k # ks) d =
     (case map_of row k of
        Some v \<Rightarrow> if truthy v then v else or_chain row ks d
      | None \<Rightarrow> or_chain row ks d)"

text \<open>The localized headers, as UTF-8 bytes.\<close>

definition hdr_Aciklama :: string where
  "hdr_Aciklama = [CHR ''A'', CHR 0xC3, CHR 0xA7, CHR 0xC4, CHR 0xB1] @ ''klama''"

definition hdr_Urun :: string where
  "hdr_Urun = [CHR 0xC3, CHR 0x9C, CHR ''r'', CHR 0xC3, CHR 0xBC, CHR ''n'']"

definition hdr_Ulke :: string where
  "hdr_Ulke = [CHR 0xC3, CHR 0x9C] @ ''lke''"

definition hdr_Mense :: string where
  "hdr_Mense = ''Men'' @ [CHR 0xC5, CHR 0x9F, CHR ''e'']"

definition hdr_Deger :: string where
  "hdr_Deger = ''De'' @ [CHR 0xC4, CHR 0x9F] @ ''er''"

definition productCode_aliases :: "string list" where
  "productCode_aliases = [''Product Code'', ''HS Code'', ''Code'', ''Kod'']"

definition productDescription_aliases :: "string list" where
  "productDescription_aliases = [''Product Description'', ''Description'', hdr_Aciklama, hdr_Urun]"

definition originCountry_aliases :: "string list" where
  "originCountry_aliases = [''Origin Country'', ''Country'', hdr_Ulke, hdr_Mense]"

definition quantity_aliases :: "string list" where
  "quantity_aliases = [''Quantity'', ''Miktar'', ''Amount'']"

definition unit_aliases :: "string list" where
  "unit_aliases = [''Unit'', ''Birim'']"

definition value_aliases :: "string list" where
  "value_aliases = [''Value'', hdr_Deger, ''Amount'']"

definition currency_aliases :: "string list" where
  "currency_aliases = [''Currency'', ''Para Birimi'']"

record TradeRecord =
  productCode :: string
  productDescription :: string
  originCountry :: cell
  quantity :: number
  unit :: cell
  "value" :: number
  currency :: cell
  isCbamRelevant :: bool
  cbamaCategory :: "string option"

text \<open>
  The body of the \<open>map\<close> callback of \<open>processExcelFile\<close>. The classifier calls
  \<open>toLowerCase\<close> on the product code and then on the description: on a cell that is not
  a string this throws a \<open>TypeError\<close> (the message is the engine's).
\<close>

definition normalizeRow :: "row \<Rightarrow> thrown + TradeRecord" where
  "normalizeRow row =
     (let productCode = or_chain row productCode_aliases (CStr '''');
          productDescription = or_chain row productDescription_aliases (CStr '''');
          originCountry = or_chain row originCountry_aliases (CStr '''');
          quantity = parseFloat (or_chain row quantity_aliases (CNum (Fin 0)));
          unit = or_chain row unit_aliases (CStr ''KG'');
          value = parseFloat (or_chain row value_aliases (CNum (Fin 0)));
          currency = or_chain row currency_aliases (CStr ''USD'')
      in case productCode of
           CStr code \<Rightarrow>
             (case productDescription of
                CStr desc \<Rightarrow>
                  (let cbamaCheck = detectCBAMRelevance code desc
                   in Inr \<lparr>productCode = code,
                           productDescription = desc,
                           originCountry = originCountry,
                           quantity = quantity,
                           unit = unit,
                           value = value,
                           currency = currency,
                           isCbamRelevant = chk_relevant cbamaCheck,
                           cbamaCategory = chk_category cbamaCheck\<rparr>)
              | _ \<Rightarrow> Inl (ErrorObj ''description.toLowerCase is not a function''))
         | _ \<Rightarrow> Inl (ErrorObj ''productCode.toLowerCase is not a function''))"

section \<open>The risk and compliance scorer\<close>

definition highRiskCountries :: "cell list" where
  "highRiskCountries = map CStr [''China'', ''India'', ''Russia'', ''Turkey'', ''Ukraine'']"

definition mediumRiskCountries :: "cell list" where
  "mediumRiskCountries = map CStr [''Brazil'', ''South Africa'', ''Indonesia'', ''Thailand'']"

definition highRiskCategories :: "string list" where
  "highRiskCategories = [''steel'', ''cement'', ''aluminum'']"

text \<open>
  \<open>Array.prototype.includes\<close> compares with strict equality, so a country that is not a
  string is in neither list.
\<close>

definition calculateRiskLevel :: "cell \<Rightarrow> string \<Rightarrow> string" where
  "calculateRiskLevel country category =
     (if country \<in> set highRiskCountries \<and> category \<in> set highRiskCategories then ''high''
      else if country \<in> set highRiskCountries \<or> category \<in> set highRiskCategories then ''medium''
      else if country \<in> set mediumRiskCountries then ''medium''
      else ''low'')"

definition baseScore :: "string \<Rightarrow> number" where
  "baseScore riskLevel =
     (if riskLevel = ''high'' then Fin 40 else if riskLevel = ''medium'' then Fin 70 else Fin 85)"

definition valueAdjustment :: "number \<Rightarrow> number" where
  "valueAdjustment v = math_min (num_div v (Fin 100000)) (Fin 15)"

definition calculateComplianceScore :: "string \<Rightarrow> number \<Rightarrow> number" where
  "calculateComplianceScore riskLevel v =
     math_max (Fin 0) (math_min (Fin 100) (num_sub (baseScore riskLevel) (valueAdjustment v)))"

record CBAMRecord =
  cr_productCode :: string
  cr_productDescription :: string
  cr_originCountry :: cell
  cr_quantity :: number
  cr_value :: number
  cr_cbamaCategory :: string
  riskLevel :: string
  complianceScore :: number

text \<open>
  The body of the \<open>map\<close> callback of \<open>loadCBAMData\<close>: the risk level and the score of
  one CBAM-relevant record (\<open>cbamaCategory || 'unknown'\<close>: a missing or empty category
  reads \<open>unknown\<close>). The record is taken as the normalizer made it: the store in between
  is assumed to list the fields as they were written.
\<close>

definition processRecord :: "TradeRecord \<Rightarrow> CBAMRecord" where
  "processRecord r =
     (let category = (case cbamaCategory r of
                        None \<Rightarrow> ''unknown''
                      | Some c \<Rightarrow> if c = [] then ''unknown'' else c);
          riskLevel = calculateRiskLevel (originCountry r) category;
          complianceScore = calculateComplianceScore riskLevel (value r)
      in \<lparr>cr_productCode = productCode r,
          cr_productDescription = productDescription r,
          cr_originCountry = originCountry r,
          cr_quantity = quantity r,
          cr_value = value r,
          cr_cbamaCategory = category,
          riskLevel = riskLevel,
          complianceScore = complianceScore\<rparr>)"

section \<open>The classifier's rule, in the words of its description\<close>

text \<open>
  An entry of the table matches when any of its keywords is a substring of either
  lower-cased field.
\<close>

definition entry_matches :: "string \<Rightarrow> string \<Rightarrow> string \<times> string list \<Rightarrow> bool" where
  "entry_matches code desc entry =
     (\<exists>keyword \<in> set (snd entry). sublist keyword code \<or> sublist keyword desc)"

text \<open>A text mentions a category when it contains one of the category's keywords.\<close>

definition mentions :: "string \<Rightarrow> string \<Rightarrow> bool" where
  "mentions cat text =
     (case map_of cbamaCategories cat of
        None \<Rightarrow> False
      | Some kws \<Rightarrow> list_ex (\<lambda>keyword. sublist keyword (toLowerCase text)) kws)"

section \<open>Column resolution, in the words of its description\<close>

fun is_string :: "cell \<Rightarrow> bool" where
  "is_string (CStr s) = True"
| "is_string _ = False"

text \<open>The row has a truthy cell under the header \<open>k\<close> (the header is matched as it is).\<close>

definition truthy_at :: "row \<Rightarrow> string \<Rightarrow> bool" where
  "truthy_at row k = (case map_of row k of None \<Rightarrow> False | Some v \<Rightarrow> truthy v)"

text \<open>The cell under the first alias, in the list's order, whose cell is truthy.\<close>

definition first_truthy :: "row \<Rightarrow> string list \<Rightarrow> cell option" where
  "first_truthy row ks =
     (case find (truthy_at row) ks of None \<Rightarrow> None | Some k \<Rightarrow> map_of row k)"

text \<open>
  The resolution that matches headers without regard to case, the first alias that the
  row has a column for winning: the reading of the description that the code is compared
  with.
\<close>

definition spec_lookup :: "row \<Rightarrow> string \<Rightarrow> cell option" where
  "spec_lookup row k = map_of (map (\<lambda>p. (toLowerCase (fst p), snd p)) row) (toLowerCase k)"

fun spec_resolve :: "row \<Rightarrow> string list \<Rightarrow> cell \<Rightarrow> cell" where
  "spec_resolve row [] d = d"
| "spec_resolve row (k # ks) d =
     (case spec_lookup row k of Some c \<Rightarrow> c | None \<Rightarrow> spec_resolve row ks d)"

section \<open>Processing an uploaded file\<close>

text \<open>
  \<open>processExcelFile\<close>: the sheet is read by the browser's file reader and the XLSX
  library, which either yield the rows of the first sheet or throw; the rows are then
  normalized one by one, and what the callback throws rejects the whole file.
\<close>

fun normalizeRows :: "row list \<Rightarrow> thrown + TradeRecord list" where
  "normalizeRows [] = Inr []"
| "normalizeRows (row # rows) =
     (case normalizeRow row of
        Inl e \<Rightarrow> Inl e
      | Inr r \<Rightarrow> (case normalizeRows rows of Inl e \<Rightarrow> Inl e | Inr rs \<Rightarrow> Inr (r # rs)))"

definition processExcelFile :: "thrown + row list \<Rightarrow> thrown + TradeRecord list" where
  "processExcelFile sheet = (case sheet of Inl e \<Rightarrow> Inl e | Inr rows \<Rightarrow> normalizeRows rows)"

datatype file_status = Pending | Processing | Completed | Error

record jsfile =
  file_name :: string
  file_sheet :: "thrown + row list"

record UploadedFile =
  "file" :: jsfile
  file_id :: string
  status :: file_status
  progress :: nat
  records :: "nat option"
  cbamaRecords :: "nat option"
  error :: "string option"

text \<open>The rows of the store, as \<open>processFile\<close> writes them.\<close>

record TradeDocument =
  doc_id :: string
  doc_userId :: string
  doc_filename :: string
  doc_status :: file_status
  doc_uploadedAt :: string
  doc_totalRecords :: nat
  doc_cbamaRecords :: nat

record StoredRecord =
  sr_id :: string
  sr_documentId :: string
  sr_userId :: string
  sr_productCode :: string
  sr_productDescription :: string
  sr_originCountry :: cell
  sr_quantity :: number
  sr_unit :: cell
  sr_value :: number
  sr_currency :: cell
  sr_isCbamRelevant :: string
  sr_cbamaCategory :: "string option"
  sr_createdAt :: string

text \<open>
  The persistence adapter is an external keyed store. A call that succeeds has the effect
  of its name (\<open>create\<close> adds the row, \<open>update\<close> changes the fields of the rows with the
  given id); a call that fails rejects with a thrown value and leaves the store as it was.
\<close>

record store =
  tradeDocuments :: "TradeDocument list"
  tradeRecords :: "StoredRecord list"

definition create_document :: "TradeDocument \<Rightarrow> store \<Rightarrow> store" where
  "create_document d s = s\<lparr>tradeDocuments := tradeDocuments s @ [d]\<rparr>"

definition create_record :: "StoredRecord \<Rightarrow> store \<Rightarrow> store" where
  "create_record r s = s\<lparr>tradeRecords := tradeRecords s @ [r]\<rparr>"

definition update_document_status :: "string \<Rightarrow> file_status \<Rightarrow> store \<Rightarrow> store" where
  "update_document_status did new s =
     s\<lparr>tradeDocuments :=
          map (\<lambda>d. if doc_id d = did then d\<lparr>doc_status := new\<rparr> else d) (tradeDocuments s)\<rparr>"

text \<open>
  What a run of \<open>processFile\<close> gets from outside: the signed-in user or a failure of the
  authentication call, the outcome of each write to the store by its number in the run
  (\<open>None\<close>: it succeeds; write 0 creates the document, writes 1 to n create the records,
  write n + 1 sets the status), and the generated identifiers and time stamps.
\<close>

record env =
  auth_me :: "thrown + string"
  write_outcome :: "nat \<Rightarrow> thrown option"
  new_documentId :: string
  new_recordId :: "nat \<Rightarrow> string"
  now :: "nat \<Rightarrow> string"

record app_state =
  uploadedFiles :: "UploadedFile list"
  db :: store

text \<open>\<open>setUploadedFiles(prev => prev.map(f => f.id === id ? upd(f) : f))\<close>.\<close>

definition update_file :: "string \<Rightarrow> (UploadedFile \<Rightarrow> UploadedFile) \<Rightarrow> app_state \<Rightarrow> app_state" where
  "update_file fid upd st =
     st\<lparr>uploadedFiles := map (\<lambda>f. if file_id f = fid then upd f else f) (uploadedFiles st)\<rparr>"

definition stored_record :: "env \<Rightarrow> string \<Rightarrow> nat \<Rightarrow> TradeRecord \<Rightarrow> StoredRecord" where
  "stored_record ev uid k r =
     \<lparr>sr_id = new_recordId ev k,
      sr_documentId = new_documentId ev,
      sr_userId = uid,
      sr_productCode = productCode r,
      sr_productDescription = productDescription r,
      sr_originCountry = originCountry r,
      sr_quantity = quantity r,
      sr_unit = unit r,
      sr_value = value r,
      sr_currency = currency r,
      sr_isCbamRelevant = (if isCbamRelevant r then ''1'' else ''0''),
      sr_cbamaCategory = (case cbamaCategory r of None \<Rightarrow> None
                          | Some c \<Rightarrow> if c = [] then None else Some c),
      sr_createdAt = now ev k\<rparr>"

text \<open>
  The loop that saves the records, write \<open>k\<close> being the next one: it stops at the first
  write that fails, with what that write threw.
\<close>

fun save_records :: "env \<Rightarrow> string \<Rightarrow> nat \<Rightarrow> TradeRecord list \<Rightarrow> app_state \<Rightarrow> (thrown + unit) \<times> app_state" where
  "save_records ev uid k [] st = (Inr (), st)"
| "save_records ev uid k (r # rs) st =
     (case write_outcome ev k of
        Some e \<Rightarrow> (Inl e, st)
      | None \<Rightarrow> save_records ev uid (Suc k) rs (st\<lparr>db := create_record (stored_record ev uid k r) (db st)\<rparr>))"

text \<open>The \<open>try\<close> block of \<open>processFile\<close>, after the first state update.\<close>

definition try_block :: "env \<Rightarrow> UploadedFile \<Rightarrow> app_state \<Rightarrow> (thrown + unit) \<times> app_state" where
  "try_block ev fileData st =
     (case processExcelFile (file_sheet (file fileData)) of
        Inl e \<Rightarrow> (Inl e, st)
      | Inr recs \<Rightarrow>
          (let st2 = update_file (file_id fileData) (\<lambda>f. f\<lparr>progress := 50\<rparr>) st
           in case auth_me ev of
                Inl e \<Rightarrow> (Inl e, st2)
              | Inr uid \<Rightarrow>
                  (case write_outcome ev 0 of
                     Some e \<Rightarrow> (Inl e, st2)
                   | None \<Rightarrow>
                       (let st3 = st2\<lparr>db := create_document
                                     \<lparr>doc_id = new_documentId ev,
                                      doc_userId = uid,
                                      doc_filename = file_name (file fileData),
                                      doc_status = Processing,
                                      doc_uploadedAt = now ev 0,
                                      doc_totalRecords = length recs,
                                      doc_cbamaRecords = length (filter isCbamRelevant recs)\<rparr>
                                     (db st2)\<rparr>;
                            st4 = update_file (file_id fileData) (\<lambda>f. f\<lparr>progress := 75\<rparr>) st3
                        in case save_records ev uid 1 recs st4 of
                             (Inl e, st5) \<Rightarrow> (Inl e, st5)
                           | (Inr u, st5) \<Rightarrow>
                               (case write_outcome ev (Suc (length recs)) of
                                  Some e \<Rightarrow> (Inl e, st5)
                                | None \<Rightarrow>
                                    (let st6 = st5\<lparr>db := update_document_status
                                                   (new_documentId ev) Completed (db st5)\<rparr>
                                     in (Inr (),
                                         update_file (file_id fileData)
                                           (\<lambda>f. f\<lparr>status := Completed,
                                                   progress := 100,
                                                   records := Some (length recs),
                                                   cbamaRecords :=
                                                     Some (length (filter isCbamRelevant recs))\<rparr>)
                                           st6)))))))"

text \<open>\<open>error instanceof Error ? error.message : 'Processing failed'\<close>.\<close>

fun error_cause :: "thrown \<Rightarrow> string" where
  "error_cause (ErrorObj message) = message"
| "error_cause NonError = ''Processing failed''"

definition processFile :: "env \<Rightarrow> UploadedFile \<Rightarrow> app_state \<Rightarrow> app_state" where
  "processFile ev fileData st =
     (let st1 = update_file (file_id fileData) (\<lambda>f. f\<lparr>status := Processing, progress := 10\<rparr>) st
      in case try_block ev fileData st1 of
           (Inr u, st') \<Rightarrow> st'
         | (Inl e, st') \<Rightarrow>
             update_file (file_id fileData)
               (\<lambda>f. f\<lparr>status := Error, error := Some (error_cause e)\<rparr>) st')"

text \<open>
  A run to evaluate: a sheet of two rows, the second record's write failing.
\<close>

definition demo_file :: UploadedFile where
  "demo_file =
     \<lparr>file = \<lparr>file_name = ''imports.xlsx'',
               file_sheet = Inr [[(''Code'', CStr ''7301''), (''Country'', CStr ''China''),
                                  (''Value'', CStr ''50000'')],
                                 [(''Code'', CStr ''0901''), (''Country'', CStr ''Brazil''),
                                  (''Value'', CStr ''700'')]]\<rparr>,
      file_id = ''f1'', status = Pending, progress = 0, records = None,
      cbamaRecords = None, error = None\<rparr>"

definition demo_records :: "TradeRecord list" where
  "demo_records =
     [\<lparr>productCode = ''7301'', productDescription = [], originCountry = CStr ''China'',
       quantity = Fin 0, unit = CStr ''KG'', value = Fin 50000, currency = CStr ''USD'',
       isCbamRelevant = True, cbamaCategory = Some ''steel''\<rparr>,
      \<lparr>productCode = ''0901'', productDescription = [], originCountry = CStr ''Brazil'',
       quantity = Fin 0, unit = CStr ''KG'', value = Fin 700, currency = CStr ''USD'',
       isCbamRelevant = False, cbamaCategory = None\<rparr>]"

definition demo_env :: env where
  "demo_env =
     \<lparr>auth_me = Inr ''user_1'',
      write_outcome = (\<lambda>k. if k = 2 then Some (ErrorObj ''network down'') else None),
      new_documentId = ''doc_1'',
      new_recordId = (\<lambda>k. ''rec''),
      now = (\<lambda>k. ''2024-01-01T00:00:00.000Z'')\<rparr>"

definition demo_state :: app_state where
  "demo_state = \<lparr>uploadedFiles = [demo_file], db = \<lparr>tradeDocuments = [], tradeRecords = []\<rparr>\<rparr>"

section \<open>Percentages of a total\<close>

text \<open>A count (the length of an array) as a number.\<close>

definition of_count :: "nat \<Rightarrow> number" where
  "of_count n = Fin (of_nat n)"

fun is_fin :: "number \<Rightarrow> bool" where
  "is_fin (Fin a) = True"
| "is_fin _ = False"

text \<open>\<open>Math.round((a / b) * 100)\<close>, the expression that every page uses.\<close>

definition round_percent :: "number \<Rightarrow> number \<Rightarrow> number" where
  "round_percent a b = math_round (num_mul (num_div a b) (Fin 100))"

subsection \<open>Number(...) of a string\<close>

definition trim_white :: "string \<Rightarrow> string" where
  "trim_white s = rev (skip_any (map rev white_space) (rev (skip_white s)))"

definition radix_digit :: "char \<Rightarrow> nat option" where
  "radix_digit c =
     (let n = (of_char c :: nat)
      in if 48 \<le> n \<and> n \<le> 57 then Some (n - 48)
         else if 97 \<le> n \<and> n \<le> 102 then Some (n - 87)
         else if 65 \<le> n \<and> n \<le> 70 then Some (n - 55)
         else None)"

fun radix_val :: "nat \<Rightarrow> nat \<Rightarrow> string \<Rightarrow> nat option" where
  "radix_val b acc [] = Some acc"
| "radix_val b acc (c # cs) =
     (case radix_digit c of
        None \<Rightarrow> None
      | Some d \<Rightarrow> if d < b then radix_val b (b * acc + d) cs else None)"

text \<open>
  The literals \<open>0x..\<close>, \<open>0o..\<close> and \<open>0b..\<close> (either case of the letter): the radix and the
  digits, when the string starts as one.
\<close>

definition non_decimal :: "string \<Rightarrow> (nat \<times> string) option" where
  "non_decimal t =
     (case t of
        z # l # ds \<Rightarrow>
          if z \<noteq> CHR ''0'' then None
          else if l = CHR ''x'' \<or> l = CHR ''X'' then Some (16, ds)
          else if l = CHR ''o'' \<or> l = CHR ''O'' then Some (8, ds)
          else if l = CHR ''b'' \<or> l = CHR ''B'' then Some (2, ds)
          else None
      | _ \<Rightarrow> None)"

text \<open>
  \<open>Number(s)\<close>: the string without the white space around it is empty (zero), a
  non-decimal integer literal, or a decimal literal that takes the whole string;
  anything else is \<open>NaN\<close>.
\<close>

definition js_Number :: "string \<Rightarrow> number" where
  "js_Number s =
     (let t = trim_white s
      in if t = [] then Fin 0
         else case non_decimal t of
                Some p \<Rightarrow>
                  (if snd p = [] then NaN
                   else case radix_val (fst p) 0 (snd p) of
                          None \<Rightarrow> NaN
                        | Some n \<Rightarrow> Fin (of_nat n))
              | None \<Rightarrow>
                  (case str_decimal t of
                     None \<Rightarrow> NaN
                   | Some p \<Rightarrow> if snd p = [] then fst p else NaN))"

text \<open>\<open>Number(record.isCbamRelevant) > 0\<close>.\<close>

definition flag_set :: "string \<Rightarrow> bool" where
  "flag_set s = num_gt (js_Number s) (Fin 0)"

text \<open>
  \<open>counts[key] = (counts[key] || 0) + 1\<close> on an object used as a table of counts, its
  entries in the order of insertion (the keys are category names).
\<close>

fun bump :: "string \<Rightarrow> (string \<times> nat) list \<Rightarrow> (string \<times> nat) list" where
  "bump k [] = [(k, 1)]"
| "bump k (e # es) = (if fst e = k then (k, snd e + 1) # es else e # bump k es)"

subsection \<open>The dashboard\<close>

record DashboardStats =
  ds_totalDocuments :: nat
  ds_totalRecords :: nat
  ds_cbamaRecords :: nat
  ds_uniqueCountries :: nat
  ds_processingDocuments :: nat

text \<open>The statistics of \<open>loadDashboardData\<close>, from the documents and records listed.\<close>

definition loadDashboardData :: "TradeDocument list \<Rightarrow> StoredRecord list \<Rightarrow> DashboardStats" where
  "loadDashboardData docsResult recordsResult =
     \<lparr>ds_totalDocuments = length docsResult,
      ds_totalRecords = length recordsResult,
      ds_cbamaRecords = length (filter (\<lambda>r. flag_set (sr_isCbamRelevant r)) recordsResult),
      ds_uniqueCountries = length (remdups (map sr_originCountry recordsResult)),
      ds_processingDocuments = length (filter (\<lambda>d. doc_status d = Processing) docsResult)\<rparr>"

text \<open>
  \<open>stats.totalRecords > 0 ? Math.round((stats.cbamaRecords / stats.totalRecords) * 100) : 0\<close>
\<close>

definition dashboard_cbam_percent :: "DashboardStats \<Rightarrow> number" where
  "dashboard_cbam_percent stats =
     (if num_gt (of_count (ds_totalRecords stats)) (Fin 0)
      then round_percent (of_count (ds_cbamaRecords stats)) (of_count (ds_totalRecords stats))
      else Fin 0)"

subsection \<open>The risk analysis of the CBAM records\<close>

text \<open>
  The statistics that \<open>loadCBAMData\<close> computes from the processed records. The risk
  totals by country, which no percentage reads, are left out.
\<close>

record CBAMStats =
  cs_totalRecords :: nat
  cs_highRiskRecords :: nat
  cs_averageComplianceScore :: number
  cs_categoriesBreakdown :: "(string \<times> nat) list"

definition cbam_statistics :: "CBAMRecord list \<Rightarrow> CBAMStats" where
  "cbam_statistics processedRecords =
     (let totalRecords = length processedRecords;
          highRiskRecords = length (filter (\<lambda>r. riskLevel r = ''high'') processedRecords)
      in \<lparr>cs_totalRecords = totalRecords,
          cs_highRiskRecords = highRiskRecords,
          cs_averageComplianceScore =
            (if num_gt (of_count totalRecords) (Fin 0)
             then num_div (fold (\<lambda>r sum. num_add sum (complianceScore r)) processedRecords (Fin 0))
                          (of_count totalRecords)
             else Fin 0),
          cs_categoriesBreakdown = fold (\<lambda>r acc. bump (cr_cbamaCategory r) acc) processedRecords []\<rparr>)"

text \<open>
  \<open>stats.totalRecords > 0 ? Math.round((stats.highRiskRecords / stats.totalRecords) * 100) : 0\<close>
\<close>

definition high_risk_percent :: "CBAMStats \<Rightarrow> number" where
  "high_risk_percent stats =
     (if num_gt (of_count (cs_totalRecords stats)) (Fin 0)
      then round_percent (of_count (cs_highRiskRecords stats)) (of_count (cs_totalRecords stats))
      else Fin 0)"

text \<open>
  For each entry of the breakdown:
  \<open>stats.totalRecords > 0 ? Math.round((count / stats.totalRecords) * 100) : 0\<close>
\<close>

definition category_percents :: "CBAMStats \<Rightarrow> number list" where
  "category_percents stats =
     map (\<lambda>entry. if num_gt (of_count (cs_totalRecords stats)) (Fin 0)
                   then round_percent (of_count (snd entry)) (of_count (cs_totalRecords stats))
                   else Fin 0)
         (cs_categoriesBreakdown stats)"

subsection \<open>The CBAM analysis page\<close>

text \<open>A listed record, with the fields that the page reads.\<close>

record analysis_row =
  ar_isCbamRelevant :: string
  ar_cbamCategory :: "string option"
  ar_carbonIntensity :: "number option"

record AnalysisStats =
  as_totalRecords :: nat
  as_cbamRelevant :: nat
  as_totalCarbonIntensity :: number
  as_categories :: "(string \<times> nat) list"

text \<open>\<open>x || dflt\<close> on an optional number.\<close>

definition number_or :: "number option \<Rightarrow> number \<Rightarrow> number" where
  "number_or x dflt = (case x of None \<Rightarrow> dflt | Some n \<Rightarrow> if truthy (CNum n) then n else dflt)"

definition analysis_statistics :: "analysis_row list \<Rightarrow> AnalysisStats" where
  "analysis_statistics rows =
     (let cbamRecords = filter (\<lambda>r. flag_set (ar_isCbamRelevant r)) rows;
          categories =
            fold (\<lambda>r acc. bump (case ar_cbamCategory r of
                                   None \<Rightarrow> ''Unknown''
                                 | Some c \<Rightarrow> if c = [] then ''Unknown'' else c) acc)
                 cbamRecords [];
          totalCarbonIntensity =
            fold (\<lambda>r sum. num_add sum (number_or (ar_carbonIntensity r) (Fin 0))) cbamRecords (Fin 0)
      in \<lparr>as_totalRecords = length rows,
          as_cbamRelevant = length cbamRecords,
          as_totalCarbonIntensity = totalCarbonIntensity,
          as_categories = categories\<rparr>)"

text \<open>
  \<open>stats.totalRecords > 0
     ? Math.round(((stats.totalRecords - stats.cbamRelevant) / stats.totalRecords) * 100) : 100\<close>
\<close>

definition compliance_percent :: "AnalysisStats \<Rightarrow> number" where
  "compliance_percent stats =
     (if num_gt (of_count (as_totalRecords stats)) (Fin 0)
      then round_percent (num_sub (of_count (as_totalRecords stats)) (of_count (as_cbamRelevant stats)))
                         (of_count (as_totalRecords stats))
      else Fin 100)"

text \<open>
  The number in the label \<open>n% of total\<close>:
  \<open>stats.totalRecords > 0 ? Math.round((stats.cbamRelevant / stats.totalRecords) * 100)\<close>,
  and the label is \<open>0% of total\<close> otherwise.
\<close>

definition cbam_relevant_percent :: "AnalysisStats \<Rightarrow> number" where
  "cbam_relevant_percent stats =
     (if num_gt (of_count (as_totalRecords stats)) (Fin 0)
      then round_percent (of_count (as_cbamRelevant stats)) (of_count (as_totalRecords stats))
      else Fin 0)"

text \<open>For each category: \<open>Math.round((count / stats.cbamRelevant) * 100)\<close>, with no guard.\<close>

definition category_shares :: "AnalysisStats \<Rightarrow> number list" where
  "category_shares stats =
     map (\<lambda>entry. round_percent (of_count (snd entry)) (of_count (as_cbamRelevant stats)))
         (as_categories stats)"

subsection \<open>The trade flow page\<close>

record CountryData =
  cd_country :: cell
  cd_totalRecords :: nat
  cd_totalValue :: number
  cd_cbamaRecords :: nat
  cd_topProducts :: "string list"

text \<open>The mock trade routes, a copy of the first five countries, are left out.\<close>

record TradeFlowData =
  tf_totalCountries :: nat
  tf_totalValue :: number
  tf_topCountries :: "CountryData list"

text \<open>
  The body of the \<open>forEach\<close> of \<open>loadTradeFlowData\<close>, on the map of the countries (in the
  order of insertion) and the running total.
\<close>

definition add_to_country :: "number \<Rightarrow> bool \<Rightarrow> string \<Rightarrow> CountryData \<Rightarrow> CountryData" where
  "add_to_country v isCbam description countryData =
     countryData
       \<lparr>cd_totalRecords := cd_totalRecords countryData + 1,
        cd_totalValue := num_add (cd_totalValue countryData) v,
        cd_cbamaRecords := (if isCbam then cd_cbamaRecords countryData + 1
                            else cd_cbamaRecords countryData),
        cd_topProducts := (if description \<noteq> [] \<and> description \<notin> set (cd_topProducts countryData)
                           then cd_topProducts countryData @ [description]
                           else cd_topProducts countryData)\<rparr>"

definition flow_step :: "StoredRecord \<Rightarrow> (cell \<times> CountryData) list \<times> number \<Rightarrow> (cell \<times> CountryData) list \<times> number" where
  "flow_step r acc =
     (let countryMap = fst acc;
          country = (if truthy (sr_originCountry r) then sr_originCountry r else CStr ''Unknown'');
          v = (if truthy (CNum (sr_value r)) then sr_value r else Fin 0);
          isCbam = flag_set (sr_isCbamRelevant r);
          totalValue = num_add (snd acc) v;
          countryMap1 =
            (if country \<in> fst ` set countryMap then countryMap
             else countryMap @ [(country, \<lparr>cd_country = country, cd_totalRecords = 0,
                                           cd_totalValue = Fin 0, cd_cbamaRecords = 0,
                                           cd_topProducts = []\<rparr>)])
      in (map (\<lambda>e. if fst e = country
                    then (fst e, add_to_country v isCbam (sr_productDescription r) (snd e))
                    else e) countryMap1,
          totalValue))"

text \<open>
  \<open>sort((a, b) => b.totalValue - a.totalValue)\<close>, as a stable insertion sort: \<open>b\<close> goes
  before \<open>a\<close> when the comparator is positive.
\<close>

fun insert_by_value :: "CountryData \<Rightarrow> CountryData list \<Rightarrow> CountryData list" where
  "insert_by_value a [] = [a]"
| "insert_by_value a (b # bs) =
     (if num_gt (num_sub (cd_totalValue b) (cd_totalValue a)) (Fin 0)
      then b # insert_by_value a bs
      else a # b # bs)"

definition loadTradeFlowData :: "StoredRecord list \<Rightarrow> TradeFlowData" where
  "loadTradeFlowData recs =
     (let acc = fold flow_step recs ([], Fin 0);
          topCountries = take 10 (foldr insert_by_value (map snd (fst acc)) [])
      in \<lparr>tf_totalCountries = length (fst acc),
          tf_totalValue = snd acc,
          tf_topCountries = topCountries\<rparr>)"

text \<open>
  For each of the first eight countries:
  \<open>Math.round((country.totalValue / tradeData.totalValue) * 100)\<close>, with no guard.
\<close>

definition trade_volume_shares :: "TradeFlowData \<Rightarrow> number list" where
  "trade_volume_shares tradeData =
     map (\<lambda>country. round_percent (cd_totalValue country) (tf_totalValue tradeData))
         (take 8 (tf_topCountries tradeData))"

definition zero_value_record :: StoredRecord where
  "zero_value_record =
     \<lparr>sr_id = ''rec_1'', sr_documentId = ''doc_1'', sr_userId = ''user_1'',
      sr_productCode = ''0901'', sr_productDescription = ''coffee'',
      sr_originCountry = CStr ''France'', sr_quantity = Fin 0, sr_unit = CStr ''KG'',
      sr_value = Fin 0, sr_currency = CStr ''USD'', sr_isCbamRelevant = ''0'',
      sr_cbamaCategory = None, sr_createdAt = ''2024-01-01T00:00:00.000Z''\<rparr>"

section \<open>Evaluation facts\<close>

lemmas parse_defs = parseFloat_str_def str_decimal_def unsigned_decimal_def skip_white_def
  white_space_def
  is_digit_def digit_val_def exponent_part_def scale10_def

lemmas alias_defs = productCode_aliases_def productDescription_aliases_def
  originCountry_aliases_def quantity_aliases_def unit_aliases_def value_aliases_def
  currency_aliases_def hdr_Aciklama_def hdr_Urun_def hdr_Ulke_def hdr_Mense_def hdr_Deger_def

lemmas classify_defs = detectCBAMRelevance_def toLowerCase_def lower_char_def cbamaCategories_def

lemmas score_defs = calculateRiskLevel_def calculateComplianceScore_def baseScore_def
  valueAdjustment_def highRiskCountries_def
  mediumRiskCountries_def highRiskCategories_def num_sub_def

section \<open>The steel pipe from China\<close>

text \<open>
  C1. The row \<open>{Code: "7301", Description: "steel pipe", Country: "China", Quantity: "100",
  Value: "50000"}\<close> is normalized to a record that is CBAM relevant with category
  \<open>steel\<close>; the risk derivation and the scorer then give it the risk level \<open>high\<close> and
  the compliance score \<open>39.5\<close>.
\<close>

theorem scenario_steel_pipe_from_China:
  "normalizeRow [(''Code'', CStr ''7301''), (''Description'', CStr ''steel pipe''),
                 (''Country'', CStr ''China''), (''Quantity'', CStr ''100''),
                 (''Value'', CStr ''50000'')]
     = Inr \<lparr>productCode = ''7301'', productDescription = ''steel pipe'',
             originCountry = CStr ''China'', quantity = Fin 100, unit = CStr ''KG'',
             value = Fin 50000, currency = CStr ''USD'',
             isCbamRelevant = True, cbamaCategory = Some ''steel''\<rparr>
   \<and> processRecord \<lparr>productCode = ''7301'', productDescription = ''steel pipe'',
             originCountry = CStr ''China'', quantity = Fin 100, unit = CStr ''KG'',
             value = Fin 50000, currency = CStr ''USD'',
             isCbamRelevant = True, cbamaCategory = Some ''steel''\<rparr>
     = \<lparr>cr_productCode = ''7301'', cr_productDescription = ''steel pipe'',
        cr_originCountry = CStr ''China'', cr_quantity = Fin 100, cr_value = Fin 50000,
        cr_cbamaCategory = ''steel'', riskLevel = ''high'', complianceScore = Fin (79 / 2)\<rparr>"
  by (simp add: normalizeRow_def processRecord_def alias_defs parse_defs classify_defs score_defs)

section \<open>The scorer\<close>

lemma valueAdjustment_simps:
  "valueAdjustment NaN = NaN"
  "valueAdjustment NegInf = NegInf"
  "valueAdjustment PosInf = Fin 15"
  "valueAdjustment (Fin x) = Fin (min (x / 100000) 15)"
  by (simp_all add: valueAdjustment_def signed_inf_def min_def)

lemma score_simps:
  "calculateComplianceScore risk NaN = NaN"
  "calculateComplianceScore risk NegInf = Fin 100"
  "calculateComplianceScore risk PosInf = num_sub (baseScore risk) (Fin 15)"
  "calculateComplianceScore risk (Fin x) =
     (case baseScore risk of Fin b \<Rightarrow> Fin (max 0 (min 100 (b - min (x / 100000) 15))) | n \<Rightarrow> n)"
  by (simp_all add: calculateComplianceScore_def valueAdjustment_simps baseScore_def num_sub_def
      min_def max_def)

text \<open>
  C5, as the code has it. For every risk level (any string: the scorer takes the level as
  one) and every trade value other than \<open>NaN\<close>, finite or infinite, the compliance score
  lies between \<open>0\<close> and \<open>100\<close>. (On \<open>NaN\<close> the score is \<open>NaN\<close>, by \<open>score_simps\<close>:
  \<open>Math.min\<close> and \<open>Math.max\<close> hand it through.)
\<close>

theorem score_in_range:
  assumes "v \<noteq> NaN"
  shows "num_le (Fin 0) (calculateComplianceScore risk v)
       \<and> num_le (calculateComplianceScore risk v) (Fin 100)"
  using assms by (cases v) (auto simp: score_simps baseScore_def num_sub_def min_def)

theorem score_in_range_witness:
  "Fin 50000 \<noteq> NaN
   \<and> num_le (Fin 0) (calculateComplianceScore ''high'' (Fin 50000))
   \<and> num_le (calculateComplianceScore ''high'' (Fin 50000)) (Fin 100)"
  using score_in_range[of "Fin 50000" "''high''"] by simp

text \<open>
  The claim as written fails on a trade value that did not parse: the normalizer makes
  the value of the row \<open>{Code: "7301", Country: "China", Value: "abc"}\<close> \<open>NaN\<close>, and the
  score of that record is \<open>NaN\<close>, which is neither at least \<open>0\<close> nor at most \<open>100\<close>.
\<close>

theorem unparsed_value_score_counterexample:
  "normalizeRow [(''Code'', CStr ''7301''), (''Country'', CStr ''China''), (''Value'', CStr ''abc'')]
     = Inr \<lparr>productCode = ''7301'', productDescription = [], originCountry = CStr ''China'',
             quantity = Fin 0, unit = CStr ''KG'', value = NaN, currency = CStr ''USD'',
             isCbamRelevant = True, cbamaCategory = Some ''steel''\<rparr>
   \<and> processRecord \<lparr>productCode = ''7301'', productDescription = [],
             originCountry = CStr ''China'', quantity = Fin 0, unit = CStr ''KG'',
             value = NaN, currency = CStr ''USD'',
             isCbamRelevant = True, cbamaCategory = Some ''steel''\<rparr>
     = \<lparr>cr_productCode = ''7301'', cr_productDescription = [],
        cr_originCountry = CStr ''China'', cr_quantity = Fin 0, cr_value = NaN,
        cr_cbamaCategory = ''steel'', riskLevel = ''high'', complianceScore = NaN\<rparr>
   \<and> \<not> num_le (Fin 0) (calculateComplianceScore ''high'' NaN)
   \<and> \<not> num_le (calculateComplianceScore ''high'' NaN) (Fin 100)"
  by (simp add: normalizeRow_def processRecord_def alias_defs parse_defs classify_defs score_defs)

text \<open>
  C7. With the risk level fixed, a larger trade value never gives a larger score, and no
  trade value takes more than 15 points off the base score: for \<open>v1 <= v2\<close>,
  \<open>score risk v1 >= score risk v2 >= base risk - 15\<close>.
\<close>

theorem score_monotone_capped:
  assumes "num_le v1 v2"
  shows "num_le (calculateComplianceScore risk v2) (calculateComplianceScore risk v1)
       \<and> num_le (num_sub (baseScore risk) (Fin 15)) (calculateComplianceScore risk v2)"
  using assms
  by (cases v1; cases v2) (auto simp: score_simps baseScore_def num_sub_def min_def max_def)

theorem score_monotone_capped_witness:
  "num_le (Fin 50000) (Fin 200000)
   \<and> num_le (calculateComplianceScore ''high'' (Fin 200000))
             (calculateComplianceScore ''high'' (Fin 50000))
   \<and> num_le (num_sub (baseScore ''high'') (Fin 15)) (calculateComplianceScore ''high'' (Fin 200000))"
  using score_monotone_capped[of "Fin 50000" "Fin 200000" "''high''"] by simp

section \<open>The risk level\<close>

text \<open>
  C6. The risk level of a country and a category is \<open>high\<close> exactly when the country is a
  high-risk country and the category a high-risk category (steel, cement, aluminum);
  otherwise \<open>medium\<close> exactly when the country is a high-risk country, or the category a
  high-risk category, or the country a medium-risk country; otherwise \<open>low\<close>.
\<close>

theorem risk_level_rule:
  "calculateRiskLevel country category =
     (if country \<in> set highRiskCountries \<and> category \<in> set highRiskCategories then ''high''
      else if country \<in> set highRiskCountries \<or> category \<in> set highRiskCategories
              \<or> country \<in> set mediumRiskCountries then ''medium''
      else ''low'')
   \<and> (calculateRiskLevel country category = ''high'') =
       (country \<in> set highRiskCountries \<and> category \<in> set highRiskCategories)
   \<and> (calculateRiskLevel country category = ''medium'') =
       (\<not> (country \<in> set highRiskCountries \<and> category \<in> set highRiskCategories)
        \<and> (country \<in> set highRiskCountries \<or> category \<in> set highRiskCategories
             \<or> country \<in> set mediumRiskCountries))
   \<and> (calculateRiskLevel country category = ''low'') =
       (country \<notin> set highRiskCountries \<and> category \<notin> set highRiskCategories
        \<and> country \<notin> set mediumRiskCountries)
   \<and> set highRiskCategories = {''steel'', ''cement'', ''aluminum''}"
  by (auto simp: calculateRiskLevel_def highRiskCategories_def)

theorem risk_level_rule_witness:
  "calculateRiskLevel (CStr ''China'') ''steel'' = ''high''
   \<and> calculateRiskLevel (CStr ''China'') ''fertilizers'' = ''medium''
   \<and> calculateRiskLevel (CStr ''France'') ''cement'' = ''medium''
   \<and> calculateRiskLevel (CStr ''Brazil'') ''electricity'' = ''medium''
   \<and> calculateRiskLevel (CStr ''France'') ''electricity'' = ''low''"
  using risk_level_rule[of "CStr ''China''" "''steel''"]
        risk_level_rule[of "CStr ''China''" "''fertilizers''"]
        risk_level_rule[of "CStr ''France''" "''cement''"]
        risk_level_rule[of "CStr ''Brazil''" "''electricity''"]
        risk_level_rule[of "CStr ''France''" "''electricity''"]
  by (simp add: highRiskCountries_def mediumRiskCountries_def highRiskCategories_def)

section \<open>The classifier\<close>

lemma str_includes_sublist: "str_includes s k = sublist k s"
  by (induction s) (simp_all add: sublist_Cons_right)

lemma match_keywords_iff:
  "match_keywords code desc kws =
     (\<exists>keyword \<in> set kws. sublist keyword code \<or> sublist keyword desc)"
  by (induction kws) (auto simp: str_includes_sublist)

lemma scan_categories_find:
  "scan_categories code desc entries =
     (case find (entry_matches code desc) entries of
        None \<Rightarrow> \<lparr>chk_relevant = False, chk_category = None\<rparr>
      | Some entry \<Rightarrow> \<lparr>chk_relevant = True, chk_category = Some (fst entry)\<rparr>)"
  by (induction entries) (simp_all add: match_keywords_iff entry_matches_def)

lemma table_order:
  "map fst cbamaCategories = [''cement'', ''steel'', ''aluminum'', ''fertilizers'', ''electricity'']"
  by (simp add: cbamaCategories_def)

lemma table_lookup:
  "map_of cbamaCategories ''cement'' = Some [''2523'', ''2507'', ''cement'', ''concrete'']"
  "map_of cbamaCategories ''steel'' =
     Some [''72'', ''7301'', ''7302'', ''7303'', ''7304'', ''7305'', ''7306'', ''steel'', ''iron'']"
  by (simp_all add: cbamaCategories_def)

lemma mentions_match:
  "map_of cbamaCategories cat = Some kws \<Longrightarrow>
   mentions cat pcode \<or> mentions cat descr \<longleftrightarrow>
   match_keywords (toLowerCase pcode) (toLowerCase descr) kws"
  by (auto simp: mentions_def match_keywords_iff list_ex_iff)

lemma steel_before_aluminum:
  assumes "mentions ''steel'' descr"
  shows "chk_category (detectCBAMRelevance pcode descr) =
           (if mentions ''cement'' pcode \<or> mentions ''cement'' descr
            then Some ''cement'' else Some ''steel'')"
proof -
  let ?code = "toLowerCase pcode" and ?desc = "toLowerCase descr"
  have steel: "match_keywords ?code ?desc
      [''72'', ''7301'', ''7302'', ''7303'', ''7304'', ''7305'', ''7306'', ''steel'', ''iron'']"
    using assms mentions_match[OF table_lookup(2), of pcode descr] by simp
  have cement: "(mentions ''cement'' pcode \<or> mentions ''cement'' descr) =
      match_keywords ?code ?desc [''2523'', ''2507'', ''cement'', ''concrete'']"
    using mentions_match[OF table_lookup(1), of pcode descr] by simp
  show ?thesis
    unfolding cement detectCBAMRelevance_def Let_def cbamaCategories_def
    using steel by (simp del: match_keywords.simps)
qed

lemmas mentions_eval = mentions_def cbamaCategories_def toLowerCase_def lower_char_def
  sublist_code

text \<open>
  C4, as the code has it. The classifier lower-cases both fields, goes through the
  categories in the order cement, steel, aluminum, fertilizers, electricity, and returns
  the first one any of whose keywords is a substring of either field; when none matches
  the result is not relevant and has no category. A description that contains a steel
  keyword and an aluminum keyword is never classified as aluminum: it is classified as
  steel, unless a cement keyword occurs in either field, and then as cement.
\<close>

theorem classify_first_match:
  "detectCBAMRelevance pcode descr =
     (case find (entry_matches (toLowerCase pcode) (toLowerCase descr)) cbamaCategories of
        None \<Rightarrow> \<lparr>chk_relevant = False, chk_category = None\<rparr>
      | Some entry \<Rightarrow> \<lparr>chk_relevant = True, chk_category = Some (fst entry)\<rparr>)
   \<and> map fst cbamaCategories = [''cement'', ''steel'', ''aluminum'', ''fertilizers'', ''electricity'']
   \<and> (mentions ''steel'' descr \<and> mentions ''aluminum'' descr \<longrightarrow>
        chk_category (detectCBAMRelevance pcode descr) \<noteq> Some ''aluminum''
        \<and> chk_category (detectCBAMRelevance pcode descr) =
            (if mentions ''cement'' pcode \<or> mentions ''cement'' descr
             then Some ''cement'' else Some ''steel''))"
proof (intro conjI impI)
  show "detectCBAMRelevance pcode descr =
     (case find (entry_matches (toLowerCase pcode) (toLowerCase descr)) cbamaCategories of
        None \<Rightarrow> \<lparr>chk_relevant = False, chk_category = None\<rparr>
      | Some entry \<Rightarrow> \<lparr>chk_relevant = True, chk_category = Some (fst entry)\<rparr>)"
    by (simp add: detectCBAMRelevance_def scan_categories_find)
  show "map fst cbamaCategories = [''cement'', ''steel'', ''aluminum'', ''fertilizers'', ''electricity'']"
    by (rule table_order)
next
  assume both: "mentions ''steel'' descr \<and> mentions ''aluminum'' descr"
  then show "chk_category (detectCBAMRelevance pcode descr) =
      (if mentions ''cement'' pcode \<or> mentions ''cement'' descr
       then Some ''cement'' else Some ''steel'')"
    by (simp add: steel_before_aluminum)
  then show "chk_category (detectCBAMRelevance pcode descr) \<noteq> Some ''aluminum''"
    by (simp split: if_splits)
qed

theorem classify_first_match_witness:
  "mentions ''steel'' ''Steel and aluminium sheets''
   \<and> mentions ''aluminum'' ''Steel and aluminium sheets''
   \<and> \<not> mentions ''cement'' ''9999'' \<and> \<not> mentions ''cement'' ''Steel and aluminium sheets''
   \<and> chk_category (detectCBAMRelevance ''9999'' ''Steel and aluminium sheets'') = Some ''steel''"
proof -
  have m: "mentions ''steel'' ''Steel and aluminium sheets''"
          "mentions ''aluminum'' ''Steel and aluminium sheets''"
          "\<not> mentions ''cement'' ''9999''"
          "\<not> mentions ''cement'' ''Steel and aluminium sheets''"
    by (simp_all add: mentions_eval)
  with classify_first_match[of "''9999''" "''Steel and aluminium sheets''",
      THEN conjunct2, THEN conjunct2]
  show ?thesis by simp
qed

text \<open>
  The claim as written fails where a cement keyword is present too: the description
  mentions steel and aluminum, and the record is classified as cement.
\<close>

theorem steel_tie_break_counterexample:
  "mentions ''steel'' ''steel and aluminum in concrete''
   \<and> mentions ''aluminum'' ''steel and aluminum in concrete''
   \<and> detectCBAMRelevance [] ''steel and aluminum in concrete''
       = \<lparr>chk_relevant = True, chk_category = Some ''cement''\<rparr>"
  by (simp add: mentions_eval classify_defs)

section \<open>The normalizer\<close>

lemma or_chain_first_truthy:
  "or_chain row ks d = (case first_truthy row ks of None \<Rightarrow> d | Some c \<Rightarrow> c)"
  by (induction ks) (auto simp: first_truthy_def truthy_at_def split: option.splits)

lemma or_chain_default:
  "(\<forall>k \<in> set ks. \<not> truthy_at row k) \<Longrightarrow> or_chain row ks d = d"
  by (induction ks) (auto simp: truthy_at_def split: option.splits)

lemma normalizeRow_fails_iff:
  "(\<exists>e. normalizeRow row = Inl e) =
     (\<not> (is_string (or_chain row productCode_aliases (CStr ''''))
         \<and> is_string (or_chain row productDescription_aliases (CStr ''''))))"
  by (auto simp: normalizeRow_def Let_def split: cell.splits)

lemma normalizeRow_fields:
  assumes "normalizeRow row = Inr r"
  shows "CStr (productCode r) = or_chain row productCode_aliases (CStr '''')"
    and "CStr (productDescription r) = or_chain row productDescription_aliases (CStr '''')"
    and "originCountry r = or_chain row originCountry_aliases (CStr '''')"
    and "quantity r = parseFloat (or_chain row quantity_aliases (CNum (Fin 0)))"
    and "unit r = or_chain row unit_aliases (CStr ''KG'')"
    and "value r = parseFloat (or_chain row value_aliases (CNum (Fin 0)))"
    and "currency r = or_chain row currency_aliases (CStr ''USD'')"
    and "isCbamRelevant r = chk_relevant (detectCBAMRelevance (productCode r) (productDescription r))"
    and "cbamaCategory r = chk_category (detectCBAMRelevance (productCode r) (productDescription r))"
  using assms by (auto simp: normalizeRow_def Let_def split: cell.splits)

lemma unsigned_decimal_not_NaN: "unsigned_decimal s = Some p \<Longrightarrow> fst p \<noteq> NaN"
  by (auto simp: unsigned_decimal_def Let_def split: if_splits)

lemma num_neg_NaN_iff: "(num_neg n = NaN) = (n = NaN)"
  by (cases n) simp_all

lemma str_decimal_not_NaN: "str_decimal s = Some p \<Longrightarrow> fst p \<noteq> NaN"
  by (auto simp: str_decimal_def num_neg_NaN_iff split: list.splits if_splits
      dest: unsigned_decimal_not_NaN)

lemma parseFloat_NaN_iff:
  "(parseFloat c = NaN) =
     (case c of CStr s \<Rightarrow> str_decimal (skip_white s) = None
              | CNum n \<Rightarrow> n = NaN
              | CBool b \<Rightarrow> True)"
  by (cases c) (auto simp: parseFloat_str_def split: option.splits dest: str_decimal_not_NaN)

text \<open>
  Some cells and what they parse to; the first begins with a no-break space.
\<close>

lemma parseFloat_examples:
  "parseFloat (CStr ([CHR 0xC2, CHR 0xA0] @ ''12'')) = Fin 12"
  "parseFloat (CStr '' 12.5 kg'') = Fin (25 / 2)"
  "parseFloat (CStr ''1e3'') = Fin 1000"
  "parseFloat (CStr ''.5'') = Fin (1 / 2)"
  "parseFloat (CStr ''-Infinity'') = NegInf"
  "parseFloat (CStr ''1,000'') = Fin 1"
  "parseFloat (CStr ''abc'') = NaN"
  "parseFloat (CBool True) = NaN"
  by (simp_all add: parse_defs)

text \<open>
  C2, as the code has it. The numeric fields are parsed leniently and parsing never
  throws: the field is \<open>0\<close> when no alias has a truthy cell (absent, empty, zero), and
  otherwise \<open>parseFloat\<close> of the first truthy cell, which is the number that the
  longest decimal literal after the cell's leading white space denotes and \<open>NaN\<close>, not
  \<open>0\<close>, when there is none. A row fails only on a product code or description cell that is not a string,
  whatever its numeric cells hold.
\<close>

theorem numeric_fields_lenient:
  "(normalizeRow row = Inr r \<longrightarrow>
      quantity r = (case first_truthy row quantity_aliases of
                      None \<Rightarrow> Fin 0 | Some c \<Rightarrow> parseFloat c)
      \<and> value r = (case first_truthy row value_aliases of
                     None \<Rightarrow> Fin 0 | Some c \<Rightarrow> parseFloat c))
   \<and> (parseFloat c = NaN) =
       (case c of CStr s \<Rightarrow> str_decimal (skip_white s) = None
                | CNum n \<Rightarrow> n = NaN
                | CBool b \<Rightarrow> True)
   \<and> (\<exists>e. normalizeRow row = Inl e) =
       (\<not> (is_string (or_chain row productCode_aliases (CStr ''''))
           \<and> is_string (or_chain row productDescription_aliases (CStr ''''))))"
proof (intro conjI impI)
  assume r: "normalizeRow row = Inr r"
  show "quantity r = (case first_truthy row quantity_aliases of
                        None \<Rightarrow> Fin 0 | Some c \<Rightarrow> parseFloat c)"
    by (simp add: normalizeRow_fields(4)[OF r] or_chain_first_truthy split: option.splits)
  show "value r = (case first_truthy row value_aliases of
                     None \<Rightarrow> Fin 0 | Some c \<Rightarrow> parseFloat c)"
    by (simp add: normalizeRow_fields(6)[OF r] or_chain_first_truthy split: option.splits)
qed (rule parseFloat_NaN_iff, rule normalizeRow_fails_iff)

lemmas row_eval = normalizeRow_def alias_defs parse_defs classify_defs

theorem numeric_fields_lenient_witness:
  "normalizeRow [(''Code'', CStr ''2523''), (''Quantity'', CStr '' 12.5 kg''), (''Value'', CStr '''')]
     = Inr \<lparr>productCode = ''2523'', productDescription = [], originCountry = CStr [],
             quantity = Fin (25 / 2), unit = CStr ''KG'', value = Fin 0, currency = CStr ''USD'',
             isCbamRelevant = True, cbamaCategory = Some ''cement''\<rparr>
   \<and> first_truthy [(''Code'', CStr ''2523''), (''Quantity'', CStr '' 12.5 kg''), (''Value'', CStr '''')]
         quantity_aliases = Some (CStr '' 12.5 kg'')
   \<and> first_truthy [(''Code'', CStr ''2523''), (''Quantity'', CStr '' 12.5 kg''), (''Value'', CStr '''')]
         value_aliases = None
   \<and> parseFloat (CStr '' 12.5 kg'') = Fin (25 / 2)"
proof -
  let ?row = "[(''Code'', CStr ''2523''), (''Quantity'', CStr '' 12.5 kg''), (''Value'', CStr '''')]"
  let ?r = "\<lparr>productCode = ''2523'', productDescription = [], originCountry = CStr [],
             quantity = Fin (25 / 2), unit = CStr ''KG'', value = Fin 0, currency = CStr ''USD'',
             isCbamRelevant = True, cbamaCategory = Some ''cement''\<rparr>"
  have n: "normalizeRow ?row = Inr ?r"
    by (simp add: row_eval)
  have q: "first_truthy ?row quantity_aliases = Some (CStr '' 12.5 kg'')"
    and v: "first_truthy ?row value_aliases = None"
    by (simp_all add: first_truthy_def truthy_at_def alias_defs)
  from numeric_fields_lenient[of ?row ?r, THEN conjunct1] n q v
  have "parseFloat (CStr '' 12.5 kg'') = Fin (25 / 2)" by simp
  with n q v show ?thesis by simp
qed

text \<open>
  The claim as written fails on a cell that does not parse: the quantity \<open>abc\<close> is
  normalized to \<open>NaN\<close>, not to \<open>0\<close>.
\<close>

theorem unparsable_cell_counterexample:
  "normalizeRow [(''Quantity'', CStr ''abc'')]
     = Inr \<lparr>productCode = [], productDescription = [], originCountry = CStr [],
             quantity = NaN, unit = CStr ''KG'', value = Fin 0, currency = CStr ''USD'',
             isCbamRelevant = False, cbamaCategory = None\<rparr>"
  by (simp add: row_eval)

lemma or_chain_row_default:
  assumes "\<forall>k \<in> set (productCode_aliases @ productDescription_aliases @ originCountry_aliases
             @ quantity_aliases @ unit_aliases @ value_aliases @ currency_aliases).
             \<not> truthy_at row k"
  shows "normalizeRow row =
           Inr \<lparr>productCode = [], productDescription = [], originCountry = CStr [],
                 quantity = Fin 0, unit = CStr ''KG'', value = Fin 0, currency = CStr ''USD'',
                 isCbamRelevant = False, cbamaCategory = None\<rparr>"
proof -
  have "or_chain row productCode_aliases (CStr []) = CStr []"
    and "or_chain row productDescription_aliases (CStr []) = CStr []"
    and "or_chain row originCountry_aliases (CStr []) = CStr []"
    and "or_chain row quantity_aliases (CNum (Fin 0)) = CNum (Fin 0)"
    and "or_chain row unit_aliases (CStr ''KG'') = CStr ''KG''"
    and "or_chain row value_aliases (CNum (Fin 0)) = CNum (Fin 0)"
    and "or_chain row currency_aliases (CStr ''USD'') = CStr ''USD''"
    using assms by (auto intro: or_chain_default)
  moreover have "detectCBAMRelevance [] [] = \<lparr>chk_relevant = False, chk_category = None\<rparr>"
    by (simp add: classify_defs)
  ultimately show ?thesis
    by (simp add: normalizeRow_def)
qed

text \<open>
  C3, as the code has it. Each logical field is resolved by trying its ordered alias list
  (for the product code: \<open>Product Code\<close>, \<open>HS Code\<close>, \<open>Code\<close>, \<open>Kod\<close>) with the header
  matched exactly, case included, and the first alias whose cell is truthy wins. A field
  with no truthy cell under any of its aliases gets its default (the empty string for
  the product code, the description and the origin country, zero for the quantity and
  the value, \<open>KG\<close> for the unit, \<open>USD\<close> for the currency), and the row does not fail.
\<close>

theorem alias_resolution:
  "or_chain row ks d = (case first_truthy row ks of None \<Rightarrow> d | Some c \<Rightarrow> c)
   \<and> productCode_aliases = [''Product Code'', ''HS Code'', ''Code'', ''Kod'']
   \<and> (normalizeRow row = Inr r \<longrightarrow>
        CStr (productCode r) = or_chain row productCode_aliases (CStr '''')
        \<and> CStr (productDescription r) = or_chain row productDescription_aliases (CStr '''')
        \<and> originCountry r = or_chain row originCountry_aliases (CStr '''')
        \<and> quantity r = parseFloat (or_chain row quantity_aliases (CNum (Fin 0)))
        \<and> unit r = or_chain row unit_aliases (CStr ''KG'')
        \<and> value r = parseFloat (or_chain row value_aliases (CNum (Fin 0)))
        \<and> currency r = or_chain row currency_aliases (CStr ''USD''))
   \<and> ((\<forall>k \<in> set (productCode_aliases @ productDescription_aliases). \<not> truthy_at row k) \<longrightarrow>
        (\<exists>r'. normalizeRow row = Inr r' \<and> productCode r' = [] \<and> productDescription r' = []))
   \<and> ((\<forall>k \<in> set (productCode_aliases @ productDescription_aliases @ originCountry_aliases
             @ quantity_aliases @ unit_aliases @ value_aliases @ currency_aliases).
             \<not> truthy_at row k) \<longrightarrow>
        normalizeRow row =
           Inr \<lparr>productCode = [], productDescription = [], originCountry = CStr [],
                 quantity = Fin 0, unit = CStr ''KG'', value = Fin 0, currency = CStr ''USD'',
                 isCbamRelevant = False, cbamaCategory = None\<rparr>)"
proof (intro conjI impI)
  show "or_chain row ks d = (case first_truthy row ks of None \<Rightarrow> d | Some c \<Rightarrow> c)"
    by (rule or_chain_first_truthy)
  show "productCode_aliases = [''Product Code'', ''HS Code'', ''Code'', ''Kod'']"
    by (rule productCode_aliases_def)
next
  assume "\<forall>k \<in> set (productCode_aliases @ productDescription_aliases). \<not> truthy_at row k"
  then have "or_chain row productCode_aliases (CStr '''') = CStr ''''"
    and "or_chain row productDescription_aliases (CStr '''') = CStr ''''"
    by (auto intro: or_chain_default)
  then show "\<exists>r'. normalizeRow row = Inr r' \<and> productCode r' = [] \<and> productDescription r' = []"
    by (simp add: normalizeRow_def Let_def)
qed (simp_all add: normalizeRow_fields or_chain_row_default)

theorem alias_resolution_witness:
  "first_truthy [(''Product Code'', CStr ''''), (''HS Code'', CNum (Fin 0)), (''Code'', CStr ''7301''),
                 (''Kod'', CStr ''2523'')] productCode_aliases = Some (CStr ''7301'')
   \<and> or_chain [(''Product Code'', CStr ''''), (''HS Code'', CNum (Fin 0)), (''Code'', CStr ''7301''),
                (''Kod'', CStr ''2523'')] productCode_aliases (CStr '''') = CStr ''7301''
   \<and> normalizeRow [(''Notes'', CStr ''brick''), (''Value'', CStr '''')] =
         Inr \<lparr>productCode = [], productDescription = [], originCountry = CStr [],
               quantity = Fin 0, unit = CStr ''KG'', value = Fin 0, currency = CStr ''USD'',
               isCbamRelevant = False, cbamaCategory = None\<rparr>
   \<and> originCountry \<lparr>productCode = [], productDescription = [], originCountry = CStr [],
               quantity = Fin 0, unit = CStr ''KG'', value = Fin 0, currency = CStr ''USD'',
               isCbamRelevant = False, cbamaCategory = None\<rparr>
       = or_chain [(''Notes'', CStr ''brick''), (''Value'', CStr '''')] originCountry_aliases (CStr '''')"
proof -
  let ?rowA = "[(''Product Code'', CStr ''''), (''HS Code'', CNum (Fin 0)), (''Code'', CStr ''7301''),
                (''Kod'', CStr ''2523'')]"
  let ?rowB = "[(''Notes'', CStr ''brick''), (''Value'', CStr '''')]"
  let ?r = "\<lparr>productCode = [], productDescription = [], originCountry = CStr [],
               quantity = Fin 0, unit = CStr ''KG'', value = Fin 0, currency = CStr ''USD'',
               isCbamRelevant = False, cbamaCategory = None\<rparr>"
  have a: "first_truthy ?rowA productCode_aliases = Some (CStr ''7301'')"
    by (simp add: first_truthy_def truthy_at_def alias_defs)
  have b: "\<forall>k \<in> set (productCode_aliases @ productDescription_aliases @ originCountry_aliases
             @ quantity_aliases @ unit_aliases @ value_aliases @ currency_aliases).
             \<not> truthy_at ?rowB k"
    by (simp add: truthy_at_def alias_defs)
  note A = alias_resolution[of ?rowA productCode_aliases "CStr ''''" ?r, THEN conjunct1]
  note B = alias_resolution[of ?rowB productCode_aliases "CStr ''''" ?r]
  have n: "normalizeRow ?rowB = Inr ?r"
    using B b by blast
  have o: "originCountry ?r = or_chain ?rowB originCountry_aliases (CStr '''')"
    using B n by blast
  show ?thesis
    using A a n o by simp
qed

text \<open>
  The claim as written fails on a header in another case: the column \<open>code\<close> is not
  found, where a resolution that ignores case finds its cell.
\<close>

theorem case_sensitive_header_counterexample:
  "or_chain [(''code'', CStr ''7301'')] productCode_aliases (CStr '''') = CStr ''''
   \<and> spec_resolve [(''code'', CStr ''7301'')] productCode_aliases (CStr '''') = CStr ''7301''
   \<and> normalizeRow [(''code'', CStr ''7301'')] =
         Inr \<lparr>productCode = [], productDescription = [], originCountry = CStr [],
               quantity = Fin 0, unit = CStr ''KG'', value = Fin 0, currency = CStr ''USD'',
               isCbamRelevant = False, cbamaCategory = None\<rparr>"
  by (simp add: row_eval spec_lookup_def)

section \<open>The shared alias\<close>

text \<open>
  C10. The quantity and the value share the last alias \<open>Amount\<close>, and resolution takes
  the first alias whose cell is truthy. So in a row whose \<open>Quantity\<close>, \<open>Miktar\<close>,
  \<open>Value\<close> and \<open>Deger\<close> cells are absent or falsy and whose \<open>Amount\<close> cell is truthy,
  the quantity and the value of the normalized record are the same number, parsed from
  that one cell (both \<open>NaN\<close> when it does not parse).
\<close>

theorem amount_shared_by_quantity_and_value:
  assumes "\<not> truthy_at row ''Quantity''" and "\<not> truthy_at row ''Miktar''"
    and "\<not> truthy_at row ''Value''" and "\<not> truthy_at row hdr_Deger"
    and "map_of row ''Amount'' = Some c" and "truthy c"
    and "normalizeRow row = Inr r"
  shows "quantity r = parseFloat c \<and> value r = parseFloat c \<and> quantity r = value r
       \<and> last quantity_aliases = ''Amount'' \<and> last value_aliases = ''Amount''
       \<and> first_truthy row quantity_aliases = Some c \<and> first_truthy row value_aliases = Some c"
proof -
  have amount: "truthy_at row ''Amount''"
    using assms(5,6) by (simp add: truthy_at_def)
  have q: "first_truthy row quantity_aliases = Some c"
    using assms(1,2,5) amount by (simp add: first_truthy_def quantity_aliases_def)
  have v: "first_truthy row value_aliases = Some c"
    using assms(3,4,5) amount by (simp add: first_truthy_def value_aliases_def)
  have "quantity r = parseFloat c" "value r = parseFloat c"
    using normalizeRow_fields(4,6)[OF assms(7)] q v by (simp_all add: or_chain_first_truthy)
  then show ?thesis
    using q v by (simp add: quantity_aliases_def value_aliases_def)
qed

theorem amount_shared_witness:
  "\<not> truthy_at [(''Code'', CStr ''7301''), (''Quantity'', CStr ''''), (''Amount'', CStr ''250'')] ''Quantity''
   \<and> map_of [(''Code'', CStr ''7301''), (''Quantity'', CStr ''''), (''Amount'', CStr ''250'')] ''Amount''
       = Some (CStr ''250'')
   \<and> normalizeRow [(''Code'', CStr ''7301''), (''Quantity'', CStr ''''), (''Amount'', CStr ''250'')]
       = Inr \<lparr>productCode = ''7301'', productDescription = [], originCountry = CStr [],
               quantity = Fin 250, unit = CStr ''KG'', value = Fin 250, currency = CStr ''USD'',
               isCbamRelevant = True, cbamaCategory = Some ''steel''\<rparr>
   \<and> parseFloat (CStr ''250'') = Fin 250"
proof -
  let ?row = "[(''Code'', CStr ''7301''), (''Quantity'', CStr ''''), (''Amount'', CStr ''250'')]"
  let ?r = "\<lparr>productCode = ''7301'', productDescription = [], originCountry = CStr [],
               quantity = Fin 250, unit = CStr ''KG'', value = Fin 250, currency = CStr ''USD'',
               isCbamRelevant = True, cbamaCategory = Some ''steel''\<rparr>"
  have h: "\<not> truthy_at ?row ''Quantity''" "\<not> truthy_at ?row ''Miktar''"
          "\<not> truthy_at ?row ''Value''" "\<not> truthy_at ?row hdr_Deger"
          "map_of ?row ''Amount'' = Some (CStr ''250'')" "truthy (CStr ''250'')"
    by (simp_all add: truthy_at_def hdr_Deger_def)
  have n: "normalizeRow ?row = Inr ?r"
    by (simp add: row_eval)
  from amount_shared_by_quantity_and_value[OF h n]
  have "parseFloat (CStr ''250'') = Fin 250" by simp
  with h n show ?thesis by simp
qed

section \<open>Failing writes\<close>

lemma update_file_db [simp]: "db (update_file fid upd st) = db st"
  by (simp add: update_file_def)

lemma update_file_ids:
  "(\<And>f. file_id (upd f) = file_id f) \<Longrightarrow>
   map file_id (uploadedFiles (update_file fid upd st)) = map file_id (uploadedFiles st)"
  by (simp add: update_file_def comp_def)

lemma update_file_marks:
  "f \<in> set (uploadedFiles (update_file fid upd st)) \<Longrightarrow> file_id f = fid \<Longrightarrow>
   (\<And>g. file_id (upd g) = file_id g) \<Longrightarrow> \<exists>g. f = upd g"
  by (auto simp: update_file_def split: if_splits)

lemma save_records_frame:
  "save_records ev uid k rs st = (res, st') \<Longrightarrow>
   uploadedFiles st' = uploadedFiles st \<and> tradeDocuments (db st') = tradeDocuments (db st)"
  by (induction rs arbitrary: k st) (auto simp: create_record_def split: option.splits)

lemma save_records_Inr:
  "save_records ev uid k rs st = (Inr u, st') \<Longrightarrow>
   (\<forall>j < length rs. write_outcome ev (k + j) = None)
   \<and> tradeRecords (db st') =
       tradeRecords (db st) @ map (\<lambda>p. stored_record ev uid (fst p) (snd p)) (enumerate k rs)"
proof (induction rs arbitrary: k st)
  case Nil
  then show ?case by simp
next
  case (Cons r rs)
  from Cons.prems obtain rest: "write_outcome ev k = None"
    and "save_records ev uid (Suc k) rs (st\<lparr>db := create_record (stored_record ev uid k r) (db st)\<rparr>) = (Inr u, st')"
    by (auto split: option.splits)
  from Cons.IH[OF this(2)] rest show ?case
    by (auto simp: create_record_def less_Suc_eq_0_disj)
qed

lemma save_records_Inl:
  "save_records ev uid k rs st = (Inl e, st') \<Longrightarrow>
   \<exists>j < length rs. write_outcome ev (k + j) = Some e
      \<and> length (tradeRecords (db st')) = length (tradeRecords (db st)) + j"
proof (induction rs arbitrary: k st)
  case Nil
  then show ?case by simp
next
  case (Cons r rs)
  show ?case
  proof (cases "write_outcome ev k")
    case None
    with Cons.prems have "save_records ev uid (Suc k) rs
        (st\<lparr>db := create_record (stored_record ev uid k r) (db st)\<rparr>) = (Inl e, st')"
      by simp
    from Cons.IH[OF this] obtain j where "j < length rs"
      "write_outcome ev (Suc k + j) = Some e"
      "length (tradeRecords (db st')) = length (tradeRecords (db st)) + Suc j"
      by (auto simp: create_record_def)
    then show ?thesis
      by (intro exI[of _ "Suc j"]) simp
  next
    case (Some a)
    with Cons.prems show ?thesis by (intro exI[of _ 0]) auto
  qed
qed

lemma try_block_write_failure:
  assumes sheet: "processExcelFile (file_sheet (file fileData)) = Inr recs"
    and user: "auth_me ev = Inr uid"
    and fails: "\<exists>k \<le> Suc (length recs). write_outcome ev k \<noteq> None"
  shows "\<exists>e st'. try_block ev fileData st = (Inl e, st')
           \<and> (\<exists>k \<le> Suc (length recs). write_outcome ev k = Some e)
           \<and> map file_id (uploadedFiles st') = map file_id (uploadedFiles st)
           \<and> (\<forall>d \<in> set (tradeDocuments (db st')).
                 d \<in> set (tradeDocuments (db st)) \<or> doc_status d = Processing)"
proof (cases "write_outcome ev 0")
  case (Some e)
  then show ?thesis
    using sheet user by (auto simp: try_block_def Let_def update_file_ids)
next
  case w0: None
  let ?st2 = "update_file (file_id fileData) (\<lambda>f. f\<lparr>progress := 50\<rparr>) st"
  let ?doc = "\<lparr>doc_id = new_documentId ev, doc_userId = uid,
               doc_filename = file_name (file fileData), doc_status = Processing,
               doc_uploadedAt = now ev 0, doc_totalRecords = length recs,
               doc_cbamaRecords = length (filter isCbamRelevant recs)\<rparr>"
  let ?st4 = "update_file (file_id fileData) (\<lambda>f. f\<lparr>progress := 75\<rparr>)
                (?st2\<lparr>db := create_document ?doc (db ?st2)\<rparr>)"
  obtain res st5 where sv: "save_records ev uid 1 recs ?st4 = (res, st5)"
    by (cases "save_records ev uid 1 recs ?st4")
  have ids4: "map file_id (uploadedFiles ?st4) = map file_id (uploadedFiles st)"
    by (simp add: update_file_def comp_def)
  have docs4: "tradeDocuments (db ?st4) = tradeDocuments (db st) @ [?doc]"
    by (simp add: create_document_def)
  from save_records_frame[OF sv] ids4 docs4
  have ids5: "map file_id (uploadedFiles st5) = map file_id (uploadedFiles st)"
    and docs5: "tradeDocuments (db st5) = tradeDocuments (db st) @ [?doc]"
    by simp_all
  show ?thesis
  proof (cases res)
    case (Inl e)
    from save_records_Inl[OF sv[unfolded Inl]] obtain j where
      "j < length recs" "write_outcome ev (1 + j) = Some e" by blast
    then have "\<exists>k \<le> Suc (length recs). write_outcome ev k = Some e"
      by (intro exI[of _ "Suc j"]) simp
    moreover have "try_block ev fileData st = (Inl e, st5)"
      using sheet user w0 sv Inl by (simp add: try_block_def Let_def)
    ultimately show ?thesis
      using ids5 docs5 by auto
  next
    case (Inr u)
    from save_records_Inr[OF sv[unfolded Inr]]
    have ok: "\<forall>j < length recs. write_outcome ev (1 + j) = None" by blast
    from fails obtain k where k: "k \<le> Suc (length recs)" "write_outcome ev k \<noteq> None"
      by blast
    have "k = Suc (length recs)"
    proof (rule ccontr)
      assume "k \<noteq> Suc (length recs)"
      with k w0 have "0 < k"
        by (auto intro: Nat.gr0I)
      with k \<open>k \<noteq> Suc (length recs)\<close> have "k - 1 < length recs"
        by arith
      with ok have "write_outcome ev (1 + (k - 1)) = None" by blast
      with \<open>0 < k\<close> k show False by simp
    qed
    with k obtain e where e: "write_outcome ev (Suc (length recs)) = Some e" by auto
    have "try_block ev fileData st = (Inl e, st5)"
      using sheet user w0 sv Inr e by (simp add: try_block_def Let_def)
    then show ?thesis
      using e ids5 docs5 by auto
  qed
qed

text \<open>
  What a failing write does, for every run. When the sheet was read and the user is known,
  and any write of the run fails (the document's creation, a record's, or the final status
  update), the entry of the file in the upload list ends with the status \<open>error\<close> and, as
  its cause, the message of the write that failed (\<open>Processing failed\<close> when what was
  thrown is no \<open>Error\<close>). The stored document is not touched by the \<open>catch\<close> block: when
  it was created it keeps the status \<open>processing\<close> that it was created with.
\<close>

lemma write_failure_marks_entry:
  assumes sheet: "processExcelFile (file_sheet (file fileData)) = Inr recs"
    and user: "auth_me ev = Inr uid"
    and fails: "\<exists>k \<le> Suc (length recs). write_outcome ev k \<noteq> None"
    and fresh: "\<forall>d \<in> set (tradeDocuments (db st)). doc_id d \<noteq> new_documentId ev"
  shows "map file_id (uploadedFiles (processFile ev fileData st)) = map file_id (uploadedFiles st)
       \<and> (\<forall>f \<in> set (uploadedFiles (processFile ev fileData st)).
             file_id f = file_id fileData \<longrightarrow>
             status f = Error
             \<and> (\<exists>k e. k \<le> Suc (length recs) \<and> write_outcome ev k = Some e
                      \<and> error f = Some (error_cause e)))
       \<and> (\<forall>d \<in> set (tradeDocuments (db (processFile ev fileData st))).
             doc_id d = new_documentId ev \<longrightarrow> doc_status d = Processing)"
proof -
  let ?st1 = "update_file (file_id fileData) (\<lambda>f. f\<lparr>status := Processing, progress := 10\<rparr>) st"
  from try_block_write_failure[OF sheet user fails, of ?st1]
  obtain e st' k where tb: "try_block ev fileData ?st1 = (Inl e, st')"
    and k: "k \<le> Suc (length recs)" "write_outcome ev k = Some e"
    and ids: "map file_id (uploadedFiles st') = map file_id (uploadedFiles ?st1)"
    and docs: "\<forall>d \<in> set (tradeDocuments (db st')).
                 d \<in> set (tradeDocuments (db ?st1)) \<or> doc_status d = Processing"
    by blast
  let ?mark = "\<lambda>f. f\<lparr>status := Error, error := Some (error_cause e)\<rparr>"
  have final: "processFile ev fileData st = update_file (file_id fileData) ?mark st'"
    using tb by (simp add: processFile_def Let_def)
  have "map file_id (uploadedFiles (processFile ev fileData st)) = map file_id (uploadedFiles st)"
    using ids by (simp add: final update_file_ids)
  moreover have "\<forall>f \<in> set (uploadedFiles (processFile ev fileData st)).
             file_id f = file_id fileData \<longrightarrow>
             status f = Error
             \<and> (\<exists>k e. k \<le> Suc (length recs) \<and> write_outcome ev k = Some e
                      \<and> error f = Some (error_cause e))"
  proof (intro ballI impI)
    fix f assume "f \<in> set (uploadedFiles (processFile ev fileData st))"
      and "file_id f = file_id fileData"
    then obtain g where "f = ?mark g"
      unfolding final using update_file_marks[of f "file_id fileData" ?mark st'] by auto
    with k show "status f = Error
             \<and> (\<exists>k e. k \<le> Suc (length recs) \<and> write_outcome ev k = Some e
                      \<and> error f = Some (error_cause e))"
      by auto
  qed
  moreover have "\<forall>d \<in> set (tradeDocuments (db (processFile ev fileData st))).
             doc_id d = new_documentId ev \<longrightarrow> doc_status d = Processing"
    using docs fresh by (auto simp: final)
  ultimately show ?thesis by blast
qed

lemma demo_sheet: "processExcelFile (file_sheet (file demo_file)) = Inr demo_records"
  by (simp add: demo_file_def demo_records_def processExcelFile_def row_eval)

text \<open>
  C8. The owning document of the records is the row of \<open>tradeDocuments\<close> that they refer
  to by \<open>documentId\<close>, and a failing write should leave it marked \<open>error\<close> with a cause.
  The code does not do that. In the run below the sheet has two rows and the write of
  the second record fails: the entry of the upload list gets the status \<open>error\<close> and the
  cause, but the stored document keeps the status \<open>processing\<close> and a total of two
  records with one record stored, and the dashboard counts it among the documents that
  are still processing. It is not shown as completed.
\<close>

theorem failed_write_leaves_document_processing:
  "processExcelFile (file_sheet (file demo_file)) = Inr demo_records
   \<and> auth_me demo_env = Inr ''user_1''
   \<and> write_outcome demo_env 2 = Some (ErrorObj ''network down'')
   \<and> map file_id (uploadedFiles (processFile demo_env demo_file demo_state)) = [''f1'']
   \<and> map status (uploadedFiles (processFile demo_env demo_file demo_state)) = [Error]
   \<and> map error (uploadedFiles (processFile demo_env demo_file demo_state)) = [Some ''network down'']
   \<and> map doc_id (tradeDocuments (db (processFile demo_env demo_file demo_state))) = [''doc_1'']
   \<and> map doc_status (tradeDocuments (db (processFile demo_env demo_file demo_state))) = [Processing]
   \<and> map doc_totalRecords (tradeDocuments (db (processFile demo_env demo_file demo_state)))
       = [length demo_records]
   \<and> length demo_records = 2
   \<and> map sr_documentId (tradeRecords (db (processFile demo_env demo_file demo_state))) = [''doc_1'']
   \<and> ds_processingDocuments
         (loadDashboardData (tradeDocuments (db (processFile demo_env demo_file demo_state)))
                            (tradeRecords (db (processFile demo_env demo_file demo_state)))) = 1"
proof -
  let ?final = "processFile demo_env demo_file demo_state"
  have user: "auth_me demo_env = Inr ''user_1''"
    and w2: "write_outcome demo_env 2 = Some (ErrorObj ''network down'')"
    by (simp_all add: demo_env_def)
  have fid: "file_id demo_file = ''f1''"
    by (simp add: demo_file_def)
  have files: "map file_id (uploadedFiles ?final) = [''f1'']"
      "map status (uploadedFiles ?final) = [Error]"
      "map error (uploadedFiles ?final) = [Some ''network down'']"
    by (simp_all add: processFile_def try_block_def demo_sheet Let_def update_file_def
        create_document_def create_record_def demo_env_def demo_state_def demo_records_def
        fid)
  have store: "map doc_id (tradeDocuments (db ?final)) = [''doc_1'']"
      "map doc_status (tradeDocuments (db ?final)) = [Processing]"
      "map doc_totalRecords (tradeDocuments (db ?final)) = [length demo_records]"
      "map sr_documentId (tradeRecords (db ?final)) = [''doc_1'']"
    by (simp_all add: processFile_def try_block_def demo_sheet Let_def update_file_def
        create_document_def create_record_def demo_env_def demo_state_def demo_records_def
        stored_record_def)
  have n: "length demo_records = 2"
    by (simp add: demo_records_def)
  obtain d where d: "tradeDocuments (db ?final) = [d]" "doc_status d = Processing"
    using store(2) by auto
  have dash: "ds_processingDocuments
         (loadDashboardData (tradeDocuments (db ?final)) (tradeRecords (db ?final))) = 1"
    by (simp add: loadDashboardData_def d)
  show ?thesis
    using demo_sheet user w2 files store n dash by simp
qed

text \<open>
  The other direction: when every write succeeds the entry and the stored document are
  completed, with all records stored.
\<close>

lemma save_records_all_ok:
  "\<forall>j < length rs. write_outcome ev (k + j) = None \<Longrightarrow>
   \<exists>st'. save_records ev uid k rs st = (Inr (), st')"
proof (induction rs arbitrary: k st)
  case Nil
  then show ?case by simp
next
  case (Cons r rs)
  from Cons.prems have "write_outcome ev k = None"
    and "\<forall>j < length rs. write_outcome ev (Suc k + j) = None"
    by force+
  with Cons.IH[of "Suc k"] show ?case by simp
qed

lemma processFile_completed:
  assumes sheet: "processExcelFile (file_sheet (file fileData)) = Inr recs"
    and user: "auth_me ev = Inr uid"
    and ok: "\<forall>k \<le> Suc (length recs). write_outcome ev k = None"
    and fresh: "\<forall>d \<in> set (tradeDocuments (db st)). doc_id d \<noteq> new_documentId ev"
  shows "(\<forall>f \<in> set (uploadedFiles (processFile ev fileData st)).
            file_id f = file_id fileData \<longrightarrow>
            status f = Completed \<and> records f = Some (length recs))
       \<and> tradeRecords (db (processFile ev fileData st)) =
           tradeRecords (db st) @ map (\<lambda>p. stored_record ev uid (fst p) (snd p)) (enumerate 1 recs)
       \<and> (\<forall>d \<in> set (tradeDocuments (db (processFile ev fileData st))).
            doc_id d = new_documentId ev \<longrightarrow>
            doc_status d = Completed \<and> doc_totalRecords d = length recs)"
proof -
  let ?st1 = "update_file (file_id fileData) (\<lambda>f. f\<lparr>status := Processing, progress := 10\<rparr>) st"
  let ?st2 = "update_file (file_id fileData) (\<lambda>f. f\<lparr>progress := 50\<rparr>) ?st1"
  let ?doc = "\<lparr>doc_id = new_documentId ev, doc_userId = uid,
               doc_filename = file_name (file fileData), doc_status = Processing,
               doc_uploadedAt = now ev 0, doc_totalRecords = length recs,
               doc_cbamaRecords = length (filter isCbamRelevant recs)\<rparr>"
  let ?st4 = "update_file (file_id fileData) (\<lambda>f. f\<lparr>progress := 75\<rparr>)
                (?st2\<lparr>db := create_document ?doc (db ?st2)\<rparr>)"
  from ok have "\<forall>j < length recs. write_outcome ev (1 + j) = None" by simp
  from save_records_all_ok[OF this] obtain st5
    where sv: "save_records ev uid 1 recs ?st4 = (Inr (), st5)" by blast
  from save_records_frame[OF sv] save_records_Inr[OF sv]
  have files5: "uploadedFiles st5 = uploadedFiles ?st4"
    and docs5: "tradeDocuments (db st5) = tradeDocuments (db st) @ [?doc]"
    and recs5: "tradeRecords (db st5) =
           tradeRecords (db st) @ map (\<lambda>p. stored_record ev uid (fst p) (snd p)) (enumerate 1 recs)"
    by (simp_all add: create_document_def)
  let ?done = "\<lambda>f. f\<lparr>status := Completed, progress := 100, records := Some (length recs),
                      cbamaRecords := Some (length (filter isCbamRelevant recs))\<rparr>"
  have final: "processFile ev fileData st =
      update_file (file_id fileData) ?done
        (st5\<lparr>db := update_document_status (new_documentId ev) Completed (db st5)\<rparr>)"
    using sheet user ok sv by (simp add: processFile_def try_block_def Let_def)
  show ?thesis
    unfolding final using docs5 recs5 fresh
    by (auto simp: update_file_def update_document_status_def)
qed

section \<open>The percentages\<close>

lemma num_gt_count: "num_gt (of_count n) (Fin 0) = (0 < n)"
  by (auto simp: of_count_def)

lemma round_percent_fin: "y \<noteq> 0 \<Longrightarrow> is_fin (round_percent (Fin x) (Fin y))"
  by (simp add: round_percent_def)

lemma round_percent_counts: "0 < b \<Longrightarrow> is_fin (round_percent (of_count a) (of_count b))"
  by (simp add: of_count_def round_percent_fin)

lemma floor_half: "\<lfloor>(1::rat) / 2\<rfloor> = 0"
  by (simp add: floor_eq_iff)

lemma round_percent_zero: "0 < b \<Longrightarrow> round_percent (of_count 0) (of_count b) = Fin 0"
  by (simp add: of_count_def round_percent_def floor_half)

lemma bump_not_Nil: "bump k es \<noteq> []"
  by (cases es) simp_all

lemma fold_bump_Nil:
  "(fold (\<lambda>r acc. bump (f r) acc) rs es = []) = (rs = [] \<and> es = [])"
  by (induction rs arbitrary: es) (simp_all add: bump_not_Nil)

lemma category_shares_fin:
  "list_all is_fin (category_shares (analysis_statistics rows))"
proof (cases "filter (\<lambda>r. flag_set (ar_isCbamRelevant r)) rows = []")
  case True
  then show ?thesis
    by (simp add: category_shares_def analysis_statistics_def)
next
  case False
  then have "0 < as_cbamRelevant (analysis_statistics rows)"
    by (simp add: analysis_statistics_def Let_def)
  then show ?thesis
    by (simp add: category_shares_def list_all_iff round_percent_counts)
qed

lemma category_percents_fin: "list_all is_fin (category_percents stats)"
  by (simp add: category_percents_def list_all_iff num_gt_count round_percent_counts)

lemma compliance_percent_fin: "is_fin (compliance_percent stats)"
  by (simp add: compliance_percent_def num_gt_count num_sub_def of_count_def round_percent_fin)

text \<open>
  C9, as the code has it. The percentages of a count over a total never are \<open>NaN\<close>: the
  CBAM share on the dashboard, the high-risk share and the category shares of the risk
  analysis, and the CBAM share and the compliance percentage of the CBAM analysis page
  test \<open>total > 0\<close> first, whatever the counts are. With a total of zero they are \<open>0\<close>,
  except the compliance percentage (the records that are not CBAM relevant over all
  records), which is \<open>100\<close>; with no CBAM-relevant record the CBAM shares are \<open>0\<close>. The
  shares of the categories among the CBAM records divide without a test, but a category
  is listed only when a CBAM record has it, so they are computed from a positive
  denominator, and not at all when no record is CBAM relevant.
\<close>

theorem percentages_guarded:
  "is_fin (dashboard_cbam_percent dstats)
   \<and> (ds_totalRecords dstats = 0 \<or> ds_cbamaRecords dstats = 0
        \<longrightarrow> dashboard_cbam_percent dstats = Fin 0)
   \<and> is_fin (high_risk_percent cstats)
   \<and> (cs_totalRecords cstats = 0 \<or> cs_highRiskRecords cstats = 0
        \<longrightarrow> high_risk_percent cstats = Fin 0)
   \<and> list_all is_fin (category_percents cstats)
   \<and> (cs_totalRecords cstats = 0 \<longrightarrow> list_all (\<lambda>p. p = Fin 0) (category_percents cstats))
   \<and> is_fin (cbam_relevant_percent astats)
   \<and> (as_totalRecords astats = 0 \<or> as_cbamRelevant astats = 0
        \<longrightarrow> cbam_relevant_percent astats = Fin 0)
   \<and> is_fin (compliance_percent astats)
   \<and> (as_totalRecords astats = 0 \<longrightarrow> compliance_percent astats = Fin 100)
   \<and> list_all is_fin (category_shares (analysis_statistics rows))
   \<and> (as_cbamRelevant (analysis_statistics rows) = 0
        \<longrightarrow> category_shares (analysis_statistics rows) = [])"
proof -
  have d: "is_fin (dashboard_cbam_percent dstats)"
    "ds_totalRecords dstats = 0 \<or> ds_cbamaRecords dstats = 0
       \<longrightarrow> dashboard_cbam_percent dstats = Fin 0"
    by (auto simp: dashboard_cbam_percent_def num_gt_count round_percent_counts round_percent_zero)
  have h: "is_fin (high_risk_percent cstats)"
    "cs_totalRecords cstats = 0 \<or> cs_highRiskRecords cstats = 0
       \<longrightarrow> high_risk_percent cstats = Fin 0"
    by (auto simp: high_risk_percent_def num_gt_count round_percent_counts round_percent_zero)
  have c: "cs_totalRecords cstats = 0 \<longrightarrow> list_all (\<lambda>p. p = Fin 0) (category_percents cstats)"
    by (simp add: category_percents_def list_all_iff num_gt_count)
  have a: "is_fin (cbam_relevant_percent astats)"
    "as_totalRecords astats = 0 \<or> as_cbamRelevant astats = 0
       \<longrightarrow> cbam_relevant_percent astats = Fin 0"
    "as_totalRecords astats = 0 \<longrightarrow> compliance_percent astats = Fin 100"
    by (auto simp: cbam_relevant_percent_def compliance_percent_def num_gt_count
        round_percent_counts round_percent_zero)
  have s: "as_cbamRelevant (analysis_statistics rows) = 0
        \<longrightarrow> category_shares (analysis_statistics rows) = []"
    by (simp add: analysis_statistics_def category_shares_def Let_def)
  show ?thesis
    using d h c a s category_percents_fin[of cstats] compliance_percent_fin[of astats]
      category_shares_fin[of rows]
    by blast
qed

text \<open>
  The claim as written fails on the compliance percentage, which is a count over the
  total times 100 and is \<open>100\<close>, not \<open>0\<close>, for the empty collection.
\<close>

theorem zero_total_compliance_counterexample:
  "as_totalRecords (analysis_statistics []) = 0
   \<and> compliance_percent (analysis_statistics []) = Fin 100"
  by (simp add: analysis_statistics_def compliance_percent_def of_count_def)

text \<open>
  The share of a country in the total trade value, a sum over a sum rather than a count
  over a total, has no test for a zero total: one record of value zero gives \<open>0 / 0\<close>.
\<close>

lemma trade_volume_share_unguarded:
  "loadTradeFlowData [zero_value_record] =
     \<lparr>tf_totalCountries = 1, tf_totalValue = Fin 0,
      tf_topCountries = [\<lparr>cd_country = CStr ''France'', cd_totalRecords = 1,
                          cd_totalValue = Fin 0, cd_cbamaRecords = 0,
                          cd_topProducts = [''coffee'']\<rparr>]\<rparr>
   \<and> trade_volume_shares (loadTradeFlowData [zero_value_record]) = [NaN]"
  by (simp add: loadTradeFlowData_def flow_step_def add_to_country_def zero_value_record_def
      trade_volume_shares_def round_percent_def signed_inf_def flag_set_def js_Number_def
      trim_white_def non_decimal_def parse_defs Let_def)

theorem percentages_guarded_witness:
  "ds_totalRecords (loadDashboardData [] []) = 0
   \<and> dashboard_cbam_percent (loadDashboardData [] []) = Fin 0
   \<and> ds_totalRecords (loadDashboardData [] [zero_value_record]) = 1
   \<and> ds_cbamaRecords (loadDashboardData [] [zero_value_record]) = 0
   \<and> dashboard_cbam_percent (loadDashboardData [] [zero_value_record]) = Fin 0
   \<and> cs_totalRecords (cbam_statistics []) = 0
   \<and> high_risk_percent (cbam_statistics []) = Fin 0
   \<and> as_totalRecords (analysis_statistics []) = 0
   \<and> as_cbamRelevant (analysis_statistics []) = 0
   \<and> cbam_relevant_percent (analysis_statistics []) = Fin 0
   \<and> compliance_percent (analysis_statistics []) = Fin 100
   \<and> category_shares (analysis_statistics []) = []"
proof -
  have flag: "\<not> flag_set ''0''"
    by (simp add: flag_set_def js_Number_def trim_white_def non_decimal_def parse_defs)
  have d0: "ds_totalRecords (loadDashboardData [] []) = 0"
    and d1: "ds_totalRecords (loadDashboardData [] [zero_value_record]) = 1"
            "ds_cbamaRecords (loadDashboardData [] [zero_value_record]) = 0"
    and c0: "cs_totalRecords (cbam_statistics []) = 0"
    and a0: "as_totalRecords (analysis_statistics []) = 0"
            "as_cbamRelevant (analysis_statistics []) = 0"
    by (simp_all add: loadDashboardData_def cbam_statistics_def analysis_statistics_def
        zero_value_record_def flag)
  note empty = percentages_guarded[of "loadDashboardData [] []" "cbam_statistics []"
      "analysis_statistics []" "[]"]
  note one = percentages_guarded[of "loadDashboardData [] [zero_value_record]"
      "cbam_statistics []" "analysis_statistics []" "[]"]
  from empty d0 c0 a0 have
    "dashboard_cbam_percent (loadDashboardData [] []) = Fin 0"
    "high_risk_percent (cbam_statistics []) = Fin 0"
    "cbam_relevant_percent (analysis_statistics []) = Fin 0"
    "compliance_percent (analysis_statistics []) = Fin 100"
    "category_shares (analysis_statistics []) = []"
    by blast+
  moreover from one d1 have "dashboard_cbam_percent (loadDashboardData [] [zero_value_record]) = Fin 0"
    by blast
  ultimately show ?thesis
    using d0 d1 c0 a0 by simp
qed

end
